theory Spec2Isabelle
  imports Complex_Main "HOL-Library.Word"
begin

section \<open>JavaScript values\<close>

text \<open>
  The backend (\<^verbatim>\<open>src/backend/server.js\<close>) is JavaScript. A JavaScript string is a
  sequence of 16-bit code units, so a line read from the serial port is a list of
  16-bit words. \<open>str\<close> turns an ASCII literal of this theory into such a string.

  A number is modelled by its real value. A decoded JSON literal keeps its exact value
  (the one exception is a literal too small for binary64, which \<open>num_value\<close> reads as
  zero, because that decides whether the value is truthy); the arithmetic of
  \<open>runPrediction\<close> and \<open>parseInt\<close> rounds its results (section on binary64 below).
  A number whose magnitude is beyond the binary64 range is \<open>Infinity\<close> for the runtime:
  the store refuses it (\<open>finite64\<close>) and \<open>parseInt\<close> returns an infinity (\<open>to_number\<close>);
  the arithmetic of \<open>runPrediction\<close> does not model overflow. The sign of zero is not
  modelled. \<open>NaN\<close> only arises from arithmetic and is modelled where arithmetic is
  (\<open>jsnum\<close> below).
\<close>

type_synonym jsstring = "16 word list"

definition str :: "string \<Rightarrow> jsstring" where
  "str s = map of_char s"

datatype jsval =
    Undefined
  | Null
  | Bool bool
  | Num real
  | Str jsstring
  | Arr "jsval list"
  | Obj "(jsstring \<times> jsval) list"

text \<open>An arithmetic result: \<open>None\<close> is \<open>NaN\<close>.\<close>

type_synonym jsnum = "real option"

text \<open>\<open>ToBoolean\<close>: objects and arrays are always truthy.\<close>

fun truthy :: "jsval \<Rightarrow> bool" where
  "truthy Undefined = False"
| "truthy Null = False"
| "truthy (Bool b) = b"
| "truthy (Num x) = (x \<noteq> 0)"
| "truthy (Str s) = (s \<noteq> [])"
| "truthy (Arr xs) = True"
| "truthy (Obj kvs) = True"

text \<open>\<^verbatim>\<open>a || b\<close>\<close>

definition js_or :: "jsval \<Rightarrow> jsval \<Rightarrow> jsval" where
  "js_or a b = (if truthy a then a else b)"

text \<open>Own properties of an object literal or a decoded JSON object, in insertion order.\<close>

type_synonym jsobject = "(jsstring \<times> jsval) list"

fun lookup :: "(jsstring \<times> jsval) list \<Rightarrow> jsstring \<Rightarrow> jsval" where
  "lookup [] k = Undefined"
| "lookup ((k', v) # kvs) k = (if k' = k then v else lookup kvs k)"

fun has_key :: "(jsstring \<times> jsval) list \<Rightarrow> jsstring \<Rightarrow> bool" where
  "has_key [] k = False"
| "has_key ((k', v) # kvs) k = (k' = k \<or> has_key kvs k)"

text \<open>
  \<^verbatim>\<open>obj[k] = v\<close>: an existing property keeps its place and takes the new value, a new
  one is added at the end.
\<close>

fun put :: "(jsstring \<times> jsval) list \<Rightarrow> jsstring \<Rightarrow> jsval \<Rightarrow> (jsstring \<times> jsval) list" where
  "put [] k v = [(k, v)]"
| "put ((k', v') # kvs) k v = (if k' = k then (k, v) # kvs else (k', v') # put kvs k v)"

datatype js_error = TypeError

text \<open>
  Property read \<^verbatim>\<open>v.k\<close> and \<^verbatim>\<open>v[i]\<close>. Reading a property of \<open>undefined\<close> or \<open>null\<close>
  throws a \<open>TypeError\<close>. An array or a string has its indices and \<open>length\<close>; every other
  name read in this program (\<open>main\<close>, \<open>temp\<close>, \<open>clouds\<close>, \<open>status\<close>, ...) is not a
  property of the built-in prototypes and reads as \<open>undefined\<close>.
\<close>

definition is_digit :: "16 word \<Rightarrow> bool" where
  "is_digit c = (0x30 \<le> c \<and> c \<le> 0x39)"

definition digits_val :: "jsstring \<Rightarrow> nat" where
  "digits_val ds = foldl (\<lambda>a c. 10 * a + unat (c - 0x30)) 0 ds"

text \<open>A canonical array index: decimal digits without a leading zero.\<close>

definition array_index :: "jsstring \<Rightarrow> nat option" where
  "array_index k =
     (if k \<noteq> [] \<and> list_all is_digit k \<and> (length k = 1 \<or> hd k \<noteq> 0x30)
      then Some (digits_val k) else None)"

definition get_indexed :: "jsval list \<Rightarrow> jsstring \<Rightarrow> jsval" where
  "get_indexed xs k =
     (if k = str ''length'' then Num (real (length xs))
      else case array_index k of
             None \<Rightarrow> Undefined
           | Some i \<Rightarrow> (if i < length xs then xs ! i else Undefined))"

fun get :: "jsval \<Rightarrow> jsstring \<Rightarrow> js_error + jsval" where
  "get Undefined k = Inl TypeError"
| "get Null k = Inl TypeError"
| "get (Bool b) k = Inr Undefined"
| "get (Num x) k = Inr Undefined"
| "get (Str s) k = Inr (get_indexed (map (\<lambda>c. Str [c]) s) k)"
| "get (Arr xs) k = Inr (get_indexed xs k)"
| "get (Obj kvs) k = Inr (lookup kvs k)"

section \<open>Strings: \<^verbatim>\<open>trim\<close> and \<^verbatim>\<open>startsWith\<close>\<close>

text \<open>
  \<^verbatim>\<open>String.prototype.trim\<close> removes ECMAScript white space and line terminators from
  both ends.
\<close>

definition js_whitespace :: "16 word \<Rightarrow> bool" where
  "js_whitespace c =
     (c = 0x09 \<or> c = 0x0A \<or> c = 0x0B \<or> c = 0x0C \<or> c = 0x0D \<or> c = 0x20 \<or> c = 0xA0
      \<or> c = 0x1680 \<or> (0x2000 \<le> c \<and> c \<le> 0x200A) \<or> c = 0x2028 \<or> c = 0x2029
      \<or> c = 0x202F \<or> c = 0x205F \<or> c = 0x3000 \<or> c = 0xFEFF)"

definition trimStart :: "jsstring \<Rightarrow> jsstring" where
  "trimStart s = dropWhile js_whitespace s"

definition trim :: "jsstring \<Rightarrow> jsstring" where
  "trim s = rev (dropWhile js_whitespace (rev (trimStart s)))"

definition startsWith :: "jsstring \<Rightarrow> jsstring \<Rightarrow> bool" where
  "startsWith s p = (take (length p) s = p)"

section \<open>Binary64 arithmetic\<close>

text \<open>
  The numbers of the runtime are binary64, and every arithmetic operation returns the
  binary64 nearest to the exact result, a tie going to the even significand.
  \<open>binary64 x\<close> is that rounding of the real \<open>x\<close>: \<open>exponent2 x\<close> is \<open>\<lfloor>log\<^sub>2 x\<rfloor>\<close>, the
  significand has 53 bits, and below \<open>2^-1022\<close> the spacing stays \<open>2^-1074\<close>. Overflow
  to \<open>Infinity\<close> (a magnitude of \<open>2^1024 - 2^970\<close> or more) is not part of \<open>binary64\<close>:
  \<open>parseInt\<close> and the store treat it on their own (\<open>to_number\<close>, \<open>finite64\<close>), and the
  statements about \<open>runPrediction\<close> stay below that range.

  The functions below that compute take the rounding as a parameter \<open>rnd\<close>: with
  \<open>binary64\<close> they are the code, with \<open>\<lambda>x. x\<close> they compute exactly.
\<close>

fun bit_length :: "nat \<Rightarrow> nat" where
  "bit_length n = (if n = 0 then 0 else Suc (bit_length (n div 2)))"

declare bit_length.simps [simp del]

definition exponent2 :: "real \<Rightarrow> int" where
  "exponent2 x =
     (if 1 \<le> x then int (bit_length (nat \<lfloor>x\<rfloor>)) - 1
      else - int (bit_length (nat (\<lceil>1 / x\<rceil> - 1))))"

definition pow2 :: "int \<Rightarrow> real" where
  "pow2 k = (if 0 \<le> k then 2 ^ nat k else 1 / 2 ^ nat (- k))"

definition round_even :: "real \<Rightarrow> int" where
  "round_even y =
     (let f = \<lfloor>y\<rfloor>; r = y - of_int f
      in if r < 1 / 2 then f else if 1 / 2 < r then f + 1 else if even f then f else f + 1)"

definition binary64 :: "real \<Rightarrow> real" where
  "binary64 x =
     (if x = 0 then 0
      else (let e = max (exponent2 \<bar>x\<bar>) (- 1022); q = pow2 (e - 52)
            in of_int (round_even (x / q)) * q))"

section \<open>\<^verbatim>\<open>JSON.parse\<close>\<close>

text \<open>
  \<^verbatim>\<open>JSON.parse\<close> is a built-in of the runtime. It is modelled by a lexer and a stack
  machine over the tokens, following the JSON grammar of ECMA-262: white space is tab,
  line feed, carriage return and space; a string has no raw control character and the
  escapes \<^verbatim>\<open>\" \\ \/ \b \f \n \r \t \uXXXX\<close>; a number is
  \<^verbatim>\<open>-? (0 | [1-9][0-9]*) (. [0-9]+)? ([eE] [+-]? [0-9]+)?\<close>. A text that does not
  follow the grammar raises \<open>SyntaxError\<close>: the result \<open>None\<close>. The members of an
  object are kept in the order of the text (the runtime lists integer-like names first;
  nothing here depends on the order).
\<close>

datatype token =
    TLBrace | TRBrace | TLBrack | TRBrack | TColon | TComma
  | TStr jsstring | TNum real | TTrue | TFalse | TNull

definition json_ws :: "16 word \<Rightarrow> bool" where
  "json_ws c = (c = 0x09 \<or> c = 0x0A \<or> c = 0x0D \<or> c = 0x20)"

definition hex_digit :: "16 word \<Rightarrow> nat option" where
  "hex_digit c =
     (if 0x30 \<le> c \<and> c \<le> 0x39 then Some (unat (c - 0x30))
      else if 0x41 \<le> c \<and> c \<le> 0x46 then Some (unat (c - 0x41) + 10)
      else if 0x61 \<le> c \<and> c \<le> 0x66 then Some (unat (c - 0x61) + 10)
      else None)"

definition hex4 :: "16 word \<Rightarrow> 16 word \<Rightarrow> 16 word \<Rightarrow> 16 word \<Rightarrow> 16 word option" where
  "hex4 a b c d =
     (case (hex_digit a, hex_digit b, hex_digit c, hex_digit d) of
        (Some w, Some x, Some y, Some z) \<Rightarrow> Some (of_nat (((w * 16 + x) * 16 + y) * 16 + z))
      | _ \<Rightarrow> None)"

definition escape_char :: "16 word \<Rightarrow> 16 word option" where
  "escape_char e =
     (if e = 0x22 then Some 0x22
      else if e = 0x5C then Some 0x5C
      else if e = 0x2F then Some 0x2F
      else if e = 0x62 then Some 0x08
      else if e = 0x66 then Some 0x0C
      else if e = 0x6E then Some 0x0A
      else if e = 0x72 then Some 0x0D
      else if e = 0x74 then Some 0x09
      else None)"

text \<open>
  \<open>lex_string cs acc\<close> reads a string body after its opening quote; it returns the
  decoded string and the text after the closing quote.
\<close>

fun lex_string :: "jsstring \<Rightarrow> jsstring \<Rightarrow> (jsstring \<times> jsstring) option" where
  "lex_string [] acc = None"
| "lex_string (c # cs) acc =
     (if c = 0x22 then Some (rev acc, cs)
      else if c = 0x5C then
        (case cs of
           [] \<Rightarrow> None
         | e # r \<Rightarrow>
             (if e = 0x75 then
                (case r of
                   a # b # x # d # r' \<Rightarrow>
                     (case hex4 a b x d of
                        None \<Rightarrow> None
                      | Some u \<Rightarrow> lex_string r' (u # acc))
                 | _ \<Rightarrow> None)
              else
                (case escape_char e of
                   None \<Rightarrow> None
                 | Some u \<Rightarrow> lex_string r (u # acc))))
      else if c < 0x20 then None
      else lex_string cs (c # acc))"

definition is_num_char :: "16 word \<Rightarrow> bool" where
  "is_num_char c = (is_digit c \<or> c = 0x2D \<or> c = 0x2B \<or> c = 0x2E \<or> c = 0x65 \<or> c = 0x45)"

text \<open>
  The value of a number literal, \<open>None\<close> when the text is not one. A literal whose
  magnitude is at most \<open>2^-1075\<close> denotes the binary64 zero.
\<close>

definition binary64_underflow :: "real \<Rightarrow> real" where
  "binary64_underflow x = (if \<bar>x\<bar> \<le> 1 / 2 ^ 1075 then 0 else x)"

definition num_exponent :: "jsstring \<Rightarrow> int option" where
  "num_exponent s =
     (if s = [] then Some 0
      else if hd s = 0x65 \<or> hd s = 0x45 then
        (let s1 = tl s;
             neg = (s1 \<noteq> [] \<and> hd s1 = 0x2D);
             s2 = (if s1 \<noteq> [] \<and> (hd s1 = 0x2D \<or> hd s1 = 0x2B) then tl s1 else s1)
         in if s2 = [] \<or> \<not> list_all is_digit s2 then None
            else Some (if neg then - int (digits_val s2) else int (digits_val s2)))
      else None)"

definition scale10 :: "real \<Rightarrow> int \<Rightarrow> real" where
  "scale10 m e = (if 0 \<le> e then m * 10 ^ nat e else m / 10 ^ nat (- e))"

definition num_value :: "jsstring \<Rightarrow> real option" where
  "num_value s =
     (let neg = (s \<noteq> [] \<and> hd s = 0x2D);
          s1 = (if neg then tl s else s);
          ip = takeWhile is_digit s1;
          s2 = dropWhile is_digit s1;
          dot = (s2 \<noteq> [] \<and> hd s2 = 0x2E);
          fp = (if dot then takeWhile is_digit (tl s2) else []);
          s3 = (if dot then dropWhile is_digit (tl s2) else s2)
      in if ip = [] \<or> (1 < length ip \<and> hd ip = 0x30) \<or> (dot \<and> fp = []) then None
         else case num_exponent s3 of
                None \<Rightarrow> None
              | Some e \<Rightarrow>
                  (let m = scale10 (real (digits_val (ip @ fp))) (e - int (length fp))
                   in Some (binary64_underflow (if neg then - m else m))))"

function lex :: "jsstring \<Rightarrow> token list option" where
  "lex [] = Some []"
| "lex (c # cs) =
     (if json_ws c then lex cs
      else if c = 0x7B then map_option ((#) TLBrace) (lex cs)
      else if c = 0x7D then map_option ((#) TRBrace) (lex cs)
      else if c = 0x5B then map_option ((#) TLBrack) (lex cs)
      else if c = 0x5D then map_option ((#) TRBrack) (lex cs)
      else if c = 0x3A then map_option ((#) TColon) (lex cs)
      else if c = 0x2C then map_option ((#) TComma) (lex cs)
      else if c = 0x22 then
        (case lex_string cs [] of
           None \<Rightarrow> None
         | Some (s, r) \<Rightarrow> map_option ((#) (TStr s)) (lex r))
      else if is_num_char c then
        (case num_value (c # takeWhile is_num_char cs) of
           None \<Rightarrow> None
         | Some x \<Rightarrow> map_option ((#) (TNum x)) (lex (dropWhile is_num_char cs)))
      else if startsWith (c # cs) (str ''true'') then map_option ((#) TTrue) (lex (drop 3 cs))
      else if startsWith (c # cs) (str ''false'') then map_option ((#) TFalse) (lex (drop 4 cs))
      else if startsWith (c # cs) (str ''null'') then map_option ((#) TNull) (lex (drop 3 cs))
      else None)"
  by pat_completeness auto
termination
proof -
  have len: "length r \<le> length cs" if "lex_string cs acc = Some (s, r)" for cs acc s r
    using that
  proof (induction cs acc rule: lex_string.induct)
    case (1 acc)
    then show ?case by simp
  next
    case (2 c cs acc)
    show ?case
    proof (cases "c = 0x22")
      case True
      with "2.prems" show ?thesis by simp
    next
      case nq: False
      show ?thesis
      proof (cases "c = 0x5C")
        case bs: True
        show ?thesis
        proof (cases cs)
          case Nil
          with "2.prems" nq bs show ?thesis by simp
        next
          case (Cons e r0)
          show ?thesis
          proof (cases "e = 0x75")
            case u: True
            from "2.prems" nq bs Cons u obtain a b x d r' v where
              r0: "r0 = a # b # x # d # r'" and h: "hex4 a b x d = Some v"
              and rec: "lex_string r' (v # acc) = Some (s, r)"
              by (auto split: list.splits option.splits)
            from "2.IH"(1) [OF nq bs Cons u r0 refl refl refl h rec]
            show ?thesis using Cons r0 by simp
          next
            case nu: False
            from "2.prems" nq bs Cons nu obtain v where
              h: "escape_char e = Some v" and rec: "lex_string r0 (v # acc) = Some (s, r)"
              by (auto split: option.splits)
            from "2.IH"(2) [OF nq bs Cons nu h rec]
            show ?thesis using Cons by simp
          qed
        qed
      next
        case nbs: False
        with "2.prems" nq have nc: "\<not> c < 0x20" and rec: "lex_string cs (c # acc) = Some (s, r)"
          by (auto split: if_splits)
        from "2.IH"(3) [OF nq nbs nc rec] show ?thesis by simp
      qed
    qed
  qed
  show ?thesis
  proof (relation "measure length", goal_cases)
    case 1
    show ?case by simp
  next
    case (9 c cs x2 x y)
    then show ?case
      using len [of cs "[]" x y] by simp
  next
    case (10 c cs x2)
    show ?case
      using length_dropWhile_le [of is_num_char cs] by simp
  qed simp_all
qed

text \<open>
  The stack machine. A frame is a container under construction: an array with the
  elements read so far, an object with its members, or an object whose next value
  belongs to the key just read. A member whose name is already present overwrites the
  earlier value (\<open>put\<close>), as \<^verbatim>\<open>JSON.parse\<close> does.
\<close>

datatype frame =
    FArr "jsval list"
  | FObj "(jsstring \<times> jsval) list"
  | FKey "(jsstring \<times> jsval) list" jsstring

datatype pstate =
    ExpVal "frame list"
  | ExpValOrEnd "frame list"
  | ExpKeyOrEnd "frame list"
  | ExpKey "frame list"
  | ExpColon "frame list"
  | AfterVal "frame list"
  | Done jsval
  | Fail

text \<open>A finished value goes to the innermost open container, or is the result.\<close>

fun deliver :: "jsval \<Rightarrow> frame list \<Rightarrow> pstate" where
  "deliver v [] = Done v"
| "deliver v (FArr acc # st) = AfterVal (FArr (acc @ [v]) # st)"
| "deliver v (FKey kvs k # st) = AfterVal (FObj (put kvs k v) # st)"
| "deliver v (FObj kvs # st) = Fail"

fun begin_value :: "token \<Rightarrow> frame list \<Rightarrow> pstate" where
  "begin_value TLBrace st = ExpKeyOrEnd (FObj [] # st)"
| "begin_value TLBrack st = ExpValOrEnd (FArr [] # st)"
| "begin_value (TStr s) st = deliver (Str s) st"
| "begin_value (TNum x) st = deliver (Num x) st"
| "begin_value TTrue st = deliver (Bool True) st"
| "begin_value TFalse st = deliver (Bool False) st"
| "begin_value TNull st = deliver Null st"
| "begin_value TRBrace st = Fail"
| "begin_value TRBrack st = Fail"
| "begin_value TColon st = Fail"
| "begin_value TComma st = Fail"

fun close_array :: "frame list \<Rightarrow> pstate" where
  "close_array (FArr acc # st) = deliver (Arr acc) st"
| "close_array st = Fail"

fun close_object :: "frame list \<Rightarrow> pstate" where
  "close_object (FObj kvs # st) = deliver (Obj kvs) st"
| "close_object st = Fail"

fun read_key :: "jsstring \<Rightarrow> frame list \<Rightarrow> pstate" where
  "read_key k (FObj kvs # st) = ExpColon (FKey kvs k # st)"
| "read_key k st = Fail"

fun after_comma :: "frame list \<Rightarrow> pstate" where
  "after_comma (FArr acc # st) = ExpVal (FArr acc # st)"
| "after_comma (FObj kvs # st) = ExpKey (FObj kvs # st)"
| "after_comma st = Fail"

fun step :: "pstate \<Rightarrow> token \<Rightarrow> pstate" where
  "step (ExpVal st) t = begin_value t st"
| "step (ExpValOrEnd st) t = (if t = TRBrack then close_array st else begin_value t st)"
| "step (ExpKeyOrEnd st) t =
     (case t of TRBrace \<Rightarrow> close_object st | TStr k \<Rightarrow> read_key k st | _ \<Rightarrow> Fail)"
| "step (ExpKey st) t = (case t of TStr k \<Rightarrow> read_key k st | _ \<Rightarrow> Fail)"
| "step (ExpColon st) t = (if t = TColon then ExpVal st else Fail)"
| "step (AfterVal st) t =
     (case t of
        TComma \<Rightarrow> after_comma st
      | TRBrack \<Rightarrow> close_array st
      | TRBrace \<Rightarrow> close_object st
      | _ \<Rightarrow> Fail)"
| "step (Done v) t = Fail"
| "step Fail t = Fail"

definition JSON_parse :: "jsstring \<Rightarrow> jsval option" where
  "JSON_parse s =
     (case lex s of
        None \<Rightarrow> None
      | Some ts \<Rightarrow> (case foldl step (ExpVal []) ts of Done v \<Rightarrow> Some v | _ \<Rightarrow> None))"

section \<open>The server state\<close>

text \<open>
  \<^verbatim>\<open>server.js\<close> keeps three module variables, \<open>latestReading\<close>, \<open>weatherCache\<close> and
  \<open>predictionCache\<close>, and writes to four places of the Firebase database. All three
  variables always hold objects. The database is the external store;
  \<open>solarData/history\<close> is the list of pushed entries in push order (the order of their
  generated keys). What the server prints is kept in \<open>console\<close>, one entry per message
  with the values it prints; \<open>LogUncaught\<close> is the runtime's report of an exception that
  nothing catches.
\<close>

record forecast_entry =
  hour :: nat
  label :: jsstring
  predicted :: jsnum

record prediction =
  predicted_power :: jsnum
  confidence :: jsnum
  peak_hour :: "nat option"
  forecast :: "forecast_entry list"
  timestamp :: "nat option"

datatype log_line =
    LogArduino jsval
  | LogReading jsobject
  | LogWeatherUpdated jsobject
  | LogWeatherFailed
  | LogPrediction jsnum
  | LogUncaught

record server_state =
  latestReading :: jsobject
  weatherCache :: jsobject
  predictionCache :: prediction
  db_live :: "jsobject option"
  db_history :: "jsobject list"
  db_weather :: "jsobject option"
  db_prediction :: "prediction option"
  console :: "log_line list"

text \<open>
  Writing to the store. \<^verbatim>\<open>db.ref(path).set(value)\<close> and \<^verbatim>\<open>push(value)\<close> check the value
  first and throw, before anything is written, when the store cannot hold it. The
  handlers below take the store's answer as the parameter \<open>store_ok\<close>:
  \<open>store_ok path value\<close> says that the write at \<open>path\<close> takes \<open>value\<close>.

  \<open>firebase_accepts\<close> is what the Firebase SDK documents of that check: it refuses a
  value that holds \<open>undefined\<close>, a number that is not finite (\<open>NaN\<close>, or a magnitude that
  binary64 reads as \<open>Infinity\<close>), and a key that is empty or has one of
  \<^verbatim>\<open>. # $ / [ ]\<close> or a control character. (Its limits on the size of keys and values
  and on depth, and its reserved names, are not modelled.) It is used where a concrete
  input is evaluated.
\<close>

datatype db_value = ObjectValue jsobject | PredictionValue prediction

definition valid_key :: "jsstring \<Rightarrow> bool" where
  "valid_key k =
     (k \<noteq> [] \<and>
      list_all (\<lambda>c. c \<noteq> 0x2E \<and> c \<noteq> 0x23 \<and> c \<noteq> 0x24 \<and> c \<noteq> 0x2F \<and> c \<noteq> 0x5B
                   \<and> c \<noteq> 0x5D \<and> 0x20 \<le> c \<and> c \<noteq> 0x7F) k)"

definition finite64 :: "real \<Rightarrow> bool" where
  "finite64 x = (\<bar>x\<bar> < 2 ^ 1024 - 2 ^ 970)"

fun valid_value :: "jsval \<Rightarrow> bool"
  and valid_values :: "jsval list \<Rightarrow> bool"
  and valid_members :: "(jsstring \<times> jsval) list \<Rightarrow> bool" where
  "valid_value Undefined = False"
| "valid_value Null = True"
| "valid_value (Bool b) = True"
| "valid_value (Num x) = finite64 x"
| "valid_value (Str s) = True"
| "valid_value (Arr xs) = valid_values xs"
| "valid_value (Obj kvs) = valid_members kvs"
| "valid_values [] = True"
| "valid_values (x # xs) = (valid_value x \<and> valid_values xs)"
| "valid_members [] = True"
| "valid_members ((k, v) # kvs) = (valid_key k \<and> valid_value v \<and> valid_members kvs)"

definition valid_number :: "jsnum \<Rightarrow> bool" where
  "valid_number a = (case a of None \<Rightarrow> False | Some x \<Rightarrow> finite64 x)"

definition valid_prediction :: "prediction \<Rightarrow> bool" where
  "valid_prediction p =
     (valid_number (predicted_power p) \<and> valid_number (confidence p)
      \<and> list_all (\<lambda>e. valid_number (predicted e)) (forecast p))"

fun firebase_accepts :: "jsstring \<Rightarrow> db_value \<Rightarrow> bool" where
  "firebase_accepts path (ObjectValue obj) = valid_members obj"
| "firebase_accepts path (PredictionValue p) = valid_prediction p"

text \<open>
  The initial values of lines 49-57; \<open>now\<close> is \<^verbatim>\<open>Date.now()\<close> when the module is
  loaded. The initial \<open>predictionCache\<close> has no \<open>peak_hour\<close> and no \<open>timestamp\<close>.
\<close>

definition initial_state :: "nat \<Rightarrow> server_state" where
  "initial_state now =
     \<lparr> latestReading =
         [(str ''voltage'', Num 0), (str ''current'', Num 0), (str ''power'', Num 0),
          (str ''angleH'', Num 90), (str ''angleV'', Num 90),
          (str ''light'', Num 0), (str ''dustAlert'', Bool False), (str ''dustRaw'', Num 0),
          (str ''timestamp'', Num (real now))],
       weatherCache = [],
       predictionCache =
         \<lparr> predicted_power = Some 0, confidence = Some 0, peak_hour = None,
           forecast = [], timestamp = None \<rparr>,
       db_live = None, db_history = [], db_weather = None, db_prediction = None,
       console = [] \<rparr>"

section \<open>USB serial: the \<^verbatim>\<open>data\<close> handler of \<^verbatim>\<open>initSerial\<close>\<close>

text \<open>
  \<open>onData store_ok now line st\<close> is the callback of \<^verbatim>\<open>parser.on('data', ...)\<close> run on
  one line in state \<open>st\<close>, with \<open>now\<close> the value of \<^verbatim>\<open>Date.now()\<close>. The \<^verbatim>\<open>catch\<close> block
  ignores every exception of the \<^verbatim>\<open>try\<close> block: the \<open>SyntaxError\<close> of \<^verbatim>\<open>JSON.parse\<close>, and
  the error of \<^verbatim>\<open>set\<close> or \<^verbatim>\<open>push\<close> on a value the store refuses, which leaves the
  assignments made before it in place and skips the rest. A text that starts with \<open>{\<close>
  decodes to an object or not at all (lemma \<open>JSON_parse_brace\<close> below), so the last
  case never runs.
\<close>

definition onData ::
  "(jsstring \<Rightarrow> db_value \<Rightarrow> bool) \<Rightarrow> nat \<Rightarrow> jsstring \<Rightarrow> server_state \<Rightarrow> server_state" where
  "onData store_ok now line0 st =
     (let line = trim line0 in
      if \<not> startsWith line (str ''{'') then st
      else
        case JSON_parse line of
          None \<Rightarrow> st
        | Some (Obj data) \<Rightarrow>
            (let msg = js_or (lookup data (str ''error'')) (lookup data (str ''status'')) in
             if truthy msg then st\<lparr>console := console st @ [LogArduino msg]\<rparr>
             else
               (let data' = put data (str ''timestamp'') (Num (real now)) in
                if \<not> store_ok (str ''solarData/live'') (ObjectValue data')
                then st\<lparr>latestReading := data'\<rparr>
                else if \<not> store_ok (str ''solarData/history'') (ObjectValue data')
                then st\<lparr>latestReading := data', db_live := Some data'\<rparr>
                else
                  st\<lparr>latestReading := data',
                     db_live := Some data',
                     db_history := db_history st @ [data'],
                     console := console st @ [LogReading data']\<rparr>))
        | Some _ \<Rightarrow> st)"

section \<open>Weather: \<^verbatim>\<open>fetchWeather\<close>\<close>

text \<open>
  The outcome of \<^verbatim>\<open>axios.get\<close> is an input of the model: the request fails on the
  network, or a response arrives with a status and a decoded body. \<open>axios\<close> rejects a
  response whose status is not in \<open>[200, 300)\<close>. The \<^verbatim>\<open>catch\<close> block logs every exception
  of the \<^verbatim>\<open>try\<close> block, also the one of \<^verbatim>\<open>set\<close> on a snapshot the store refuses, which
  is thrown after \<open>weatherCache\<close> has been assigned.
\<close>

datatype http_result = NetworkFailure | HttpResponse nat jsval

definition sbind :: "'e + 'a \<Rightarrow> ('a \<Rightarrow> 'e + 'b) \<Rightarrow> 'e + 'b" where
  "sbind m f = (case m of Inl e \<Rightarrow> Inl e | Inr x \<Rightarrow> f x)"

text \<open>\<^verbatim>\<open>v.a.b\<close>\<close>

definition get2 :: "jsval \<Rightarrow> jsstring \<Rightarrow> jsstring \<Rightarrow> js_error + jsval" where
  "get2 v a b = sbind (get v a) (\<lambda>x. get x b)"

text \<open>
  The object literal of lines 125-132, its properties evaluated in order; the first
  read of a property of \<open>undefined\<close> or \<open>null\<close> throws.
\<close>

definition weather_of :: "nat \<Rightarrow> jsval \<Rightarrow> js_error + jsobject" where
  "weather_of now data =
     sbind (get2 data (str ''main'') (str ''temp'')) (\<lambda>temp.
     sbind (get2 data (str ''main'') (str ''humidity'')) (\<lambda>humidity.
     sbind (get2 data (str ''clouds'') (str ''all'')) (\<lambda>clouds.
     sbind (sbind (get2 data (str ''weather'') (str ''0'')) (\<lambda>w. get w (str ''description'')))
       (\<lambda>description.
     sbind (get2 data (str ''wind'') (str ''speed'')) (\<lambda>windSpeed.
       Inr [(str ''temp'', temp), (str ''humidity'', humidity), (str ''clouds'', clouds),
            (str ''description'', description), (str ''windSpeed'', windSpeed),
            (str ''timestamp'', Num (real now))])))))"

definition fetchWeather ::
  "(jsstring \<Rightarrow> db_value \<Rightarrow> bool) \<Rightarrow> nat \<Rightarrow> http_result \<Rightarrow> server_state \<Rightarrow> server_state" where
  "fetchWeather store_ok now res st =
     (case res of
        NetworkFailure \<Rightarrow> st\<lparr>console := console st @ [LogWeatherFailed]\<rparr>
      | HttpResponse status data \<Rightarrow>
          if 200 \<le> status \<and> status < 300 then
            (case weather_of now data of
               Inl e \<Rightarrow> st\<lparr>console := console st @ [LogWeatherFailed]\<rparr>
             | Inr w \<Rightarrow>
                 if store_ok (str ''solarData/weather'') (ObjectValue w) then
                   st\<lparr>weatherCache := w,
                      db_weather := Some w,
                      console := console st @ [LogWeatherUpdated w]\<rparr>
                 else
                   st\<lparr>weatherCache := w,
                      console := console st @ [LogWeatherFailed]\<rparr>)
          else st\<lparr>console := console st @ [LogWeatherFailed]\<rparr>)"

section \<open>Prediction: \<^verbatim>\<open>runPrediction\<close>\<close>

text \<open>
  \<open>ToNumber\<close> on the operands of \<open>*\<close>, \<open>/\<close> and \<open>-\<close>. Converting a string, an array or
  an object goes through \<open>ToPrimitive\<close> and the numeric string grammar; that part of the
  runtime is the parameter \<open>tn\<close>.
\<close>

fun ToNumber :: "(jsval \<Rightarrow> jsnum) \<Rightarrow> jsval \<Rightarrow> jsnum" where
  "ToNumber tn Undefined = None"
| "ToNumber tn Null = Some 0"
| "ToNumber tn (Bool b) = Some (if b then 1 else 0)"
| "ToNumber tn (Num x) = Some x"
| "ToNumber tn (Str s) = tn (Str s)"
| "ToNumber tn (Arr xs) = tn (Arr xs)"
| "ToNumber tn (Obj kvs) = tn (Obj kvs)"

text \<open>
  A number as the arithmetic reads it. The runtime holds every number as a binary64;
  the model keeps a decoded literal with its exact value and rounds it here.
\<close>

definition operand :: "(real \<Rightarrow> real) \<Rightarrow> (jsval \<Rightarrow> jsnum) \<Rightarrow> jsval \<Rightarrow> jsnum" where
  "operand rnd tn v = map_option rnd (ToNumber tn v)"

text \<open>\<^verbatim>\<open>a * b\<close>, \<^verbatim>\<open>a - b\<close> and \<^verbatim>\<open>a / 100\<close>: the exact result, rounded; \<open>NaN\<close> stays.\<close>

definition js_mul :: "(real \<Rightarrow> real) \<Rightarrow> jsnum \<Rightarrow> jsnum \<Rightarrow> jsnum" where
  "js_mul rnd a b = (case (a, b) of (Some x, Some y) \<Rightarrow> Some (rnd (x * y)) | _ \<Rightarrow> None)"

definition js_sub :: "(real \<Rightarrow> real) \<Rightarrow> jsnum \<Rightarrow> jsnum \<Rightarrow> jsnum" where
  "js_sub rnd a b = (case (a, b) of (Some x, Some y) \<Rightarrow> Some (rnd (x - y)) | _ \<Rightarrow> None)"

definition js_div100 :: "(real \<Rightarrow> real) \<Rightarrow> jsnum \<Rightarrow> jsnum" where
  "js_div100 rnd a = map_option (\<lambda>x. rnd (x / 100)) a"

text \<open>
  \<^verbatim>\<open>parseFloat(x.toFixed(3))\<close>. \<^verbatim>\<open>toFixed(3)\<close> prints the multiple of \<open>1/1000\<close> nearest to the
  magnitude of the number \<open>x\<close> it is called on, a tie upwards, and keeps the sign: that
  decimal is \<open>round3 x\<close>, computed from the exact value of \<open>x\<close>. (From \<open>10^21\<close> on it
  prints the number itself; a binary64 of that size is an integer, so the value is the
  same.) \<^verbatim>\<open>parseFloat\<close> reads the decimal back as the nearest binary64.
\<close>

definition round3 :: "real \<Rightarrow> real" where
  "round3 x =
     (if x < 0 then - (of_int \<lfloor>- x * 1000 + 1 / 2\<rfloor> / 1000)
      else of_int \<lfloor>x * 1000 + 1 / 2\<rfloor> / 1000)"

definition toFixed3 :: "(real \<Rightarrow> real) \<Rightarrow> jsnum \<Rightarrow> jsnum" where
  "toFixed3 rnd a = map_option (\<lambda>x. rnd (round3 x)) a"

text \<open>
  \<^verbatim>\<open>Math.max(0, a)\<close> and \<^verbatim>\<open>Math.round(a)\<close>; both are exact, and give \<open>NaN\<close> on \<open>NaN\<close>.
\<close>

definition Math_max0 :: "jsnum \<Rightarrow> jsnum" where
  "Math_max0 a = map_option (max 0) a"

definition Math_round :: "jsnum \<Rightarrow> jsnum" where
  "Math_round a = map_option (\<lambda>x. of_int \<lfloor>x + 1 / 2\<rfloor>) a"

text \<open>
  The table of lines 150-155, with the decimals as written; an entry is a binary64
  literal, so the arithmetic reads \<open>rnd (hourlyFactor ! k)\<close>, as it reads \<open>rnd 0.7\<close> and
  \<open>rnd 1.1\<close>.
\<close>

definition hourlyFactor :: "real list" where
  "hourlyFactor =
     [0, 0, 0, 0, 0, 0.05,
      0.1, 0.2, 0.35, 0.55, 0.75, 0.9,
      1.0, 0.95, 0.85, 0.7, 0.5, 0.3,
      0.1, 0.05, 0, 0, 0, 0]"

text \<open>The decimal digits of a number, for the template \<^verbatim>\<open>`${futureHour}:00`\<close>.\<close>

fun show_nat :: "nat \<Rightarrow> jsstring" where
  "show_nat n =
     (if n < 10 then [of_nat n + 0x30]
      else show_nat (n div 10) @ [of_nat (n mod 10) + 0x30])"

declare show_nat.simps [simp del]

definition cloudFactor :: "(real \<Rightarrow> real) \<Rightarrow> (jsval \<Rightarrow> jsnum) \<Rightarrow> server_state \<Rightarrow> jsnum" where
  "cloudFactor rnd tn st =
     js_sub rnd (Some 1)
       (js_mul rnd
          (js_div100 rnd
             (operand rnd tn (js_or (lookup (weatherCache st) (str ''clouds'')) (Num 0))))
          (Some (rnd 0.7)))"

definition basePower :: "server_state \<Rightarrow> jsval" where
  "basePower st = js_or (lookup (latestReading st) (str ''power'')) (Num 0)"

text \<open>
  One round of the loop of lines 163-171, for \<open>i\<close>; \<open>h\<close> is \<^verbatim>\<open>new Date().getHours()\<close>.
  (\<open>lightPct\<close> of line 159 is computed and never used.)
\<close>

definition forecast_entry_at ::
  "(real \<Rightarrow> real) \<Rightarrow> (jsval \<Rightarrow> jsnum) \<Rightarrow> nat \<Rightarrow> server_state \<Rightarrow> nat \<Rightarrow> forecast_entry" where
  "forecast_entry_at rnd tn h st i =
     (let futureHour = (h + i) mod 24;
          p = js_mul rnd
                (js_mul rnd
                   (js_mul rnd (operand rnd tn (basePower st))
                      (Some (rnd (hourlyFactor ! futureHour))))
                   (cloudFactor rnd tn st))
                (Some (rnd 1.1))
      in \<lparr> hour = futureHour,
           label = show_nat futureHour @ str '':00'',
           predicted = Math_max0 (toFixed3 rnd p) \<rparr>)"

text \<open>
  \<open>runPrediction store_ok rnd tn h now st\<close>: lines 146-187 at the hour \<open>h\<close> and the time
  \<open>now\<close>. The function has no \<^verbatim>\<open>try\<close>: when \<^verbatim>\<open>set\<close> refuses the prediction (it holds
  \<open>NaN\<close>), the exception leaves the function after \<open>predictionCache\<close> has been assigned
  and before the message of line 186. What the caller does with the exception is
  outside the function; the model records it as \<open>LogUncaught\<close>.
\<close>

definition runPrediction ::
  "(jsstring \<Rightarrow> db_value \<Rightarrow> bool) \<Rightarrow> (real \<Rightarrow> real) \<Rightarrow> (jsval \<Rightarrow> jsnum) \<Rightarrow> nat \<Rightarrow> nat
     \<Rightarrow> server_state \<Rightarrow> server_state" where
  "runPrediction store_ok rnd tn h now st =
     (let fc = map (forecast_entry_at rnd tn h st) [1..<7];
          nextHour = (h + 1) mod 24;
          nextPower =
            js_mul rnd
              (js_mul rnd (operand rnd tn (basePower st)) (Some (rnd (hourlyFactor ! nextHour))))
              (cloudFactor rnd tn st);
          pc = \<lparr> predicted_power = Math_max0 (toFixed3 rnd nextPower),
                 confidence = Math_round (js_mul rnd (cloudFactor rnd tn st) (Some 90)),
                 peak_hour = Some 12,
                 forecast = fc,
                 timestamp = Some now \<rparr>
      in if store_ok (str ''solarData/prediction'') (PredictionValue pc) then
           st\<lparr>predictionCache := pc,
              db_prediction := Some pc,
              console := console st @ [LogPrediction (predicted_power pc)]\<rparr>
         else
           st\<lparr>predictionCache := pc,
              console := console st @ [LogUncaught]\<rparr>)"

text \<open>
  The cloud factor of line 157 and the confidence of line 179 as functions of the
  cloud cover \<open>c\<close> that the arithmetic reads, every operation rounding its result.
\<close>

definition cloud_factor :: "(real \<Rightarrow> real) \<Rightarrow> real \<Rightarrow> real" where
  "cloud_factor rnd c = rnd (1 - rnd (rnd (c / 100) * rnd 0.7))"

definition confidence_rounded :: "(real \<Rightarrow> real) \<Rightarrow> real \<Rightarrow> int" where
  "confidence_rounded rnd c = \<lfloor>rnd (cloud_factor rnd c * 90) + 1 / 2\<rfloor>"

section \<open>REST API endpoints\<close>

datatype 'a api_response = ApiOk 'a | ApiError500

definition api_live :: "server_state \<Rightarrow> jsobject api_response" where
  "api_live st = ApiOk (latestReading st)"

definition api_weather :: "server_state \<Rightarrow> jsobject api_response" where
  "api_weather st = ApiOk (weatherCache st)"

definition api_prediction :: "server_state \<Rightarrow> prediction api_response" where
  "api_prediction st = ApiOk (predictionCache st)"

text \<open>
  The result of \<^verbatim>\<open>parseInt\<close> is a number of the runtime: \<open>NaN\<close>, a binary64, or an
  infinity. \<open>to_number rnd x\<close> is the number for the real \<open>x\<close>: its rounding, or an infinity
  when the magnitude of \<open>x\<close> is beyond the binary64 range.
\<close>

datatype number = NaN | Finite real | PosInfinity | NegInfinity

definition to_number :: "(real \<Rightarrow> real) \<Rightarrow> real \<Rightarrow> number" where
  "to_number rnd x =
     (if finite64 x then Finite (rnd x) else if 0 < x then PosInfinity else NegInfinity)"

text \<open>
  \<^verbatim>\<open>parseInt(s)\<close> without a radix: leading white space is skipped, a sign is read, the
  prefix \<open>0x\<close> selects radix 16, and the longest run of digits is the value; no digit
  gives \<open>NaN\<close>. The result is the number for the integer read. (For more than 20
  decimal digits the language standard lets an implementation read an approximation of
  the integer; the model reads the integer.)
\<close>

definition hex_val :: "jsstring \<Rightarrow> nat" where
  "hex_val ds = foldl (\<lambda>a c. case hex_digit c of Some d \<Rightarrow> 16 * a + d | None \<Rightarrow> a) 0 ds"

definition parseInt :: "(real \<Rightarrow> real) \<Rightarrow> jsstring \<Rightarrow> number" where
  "parseInt rnd s =
     (let s1 = trimStart s;
          neg = (s1 \<noteq> [] \<and> hd s1 = 0x2D);
          s2 = (if s1 \<noteq> [] \<and> (hd s1 = 0x2D \<or> hd s1 = 0x2B) then tl s1 else s1);
          hex = (startsWith s2 (str ''0x'') \<or> startsWith s2 (str ''0X''));
          s3 = (if hex then drop 2 s2 else s2);
          z = (if hex then takeWhile (\<lambda>c. hex_digit c \<noteq> None) s3 else takeWhile is_digit s3)
      in if z = [] then NaN
         else (let m = (if hex then hex_val z else digits_val z)
               in to_number rnd (if neg then - real m else real m)))"

text \<open>
  \<^verbatim>\<open>parseInt(req.query.limit) || 50\<close>. The query parameter is a string, or \<open>undefined\<close>
  when the request has none; \<^verbatim>\<open>parseInt\<close> reads \<open>undefined\<close> as the text "undefined". (A
  parameter that the framework decodes to an array or an object, as it does a repeated
  or bracketed one, is not modelled.) \<open>NaN\<close> and zero are falsy, every other number is
  truthy.
\<close>

definition history_limit :: "(real \<Rightarrow> real) \<Rightarrow> jsstring option \<Rightarrow> number" where
  "history_limit rnd q =
     (case parseInt rnd (case q of None \<Rightarrow> str ''undefined'' | Some s \<Rightarrow> s) of
        NaN \<Rightarrow> Finite 50
      | Finite n \<Rightarrow> (if n = 0 then Finite 50 else Finite n)
      | PosInfinity \<Rightarrow> PosInfinity
      | NegInfinity \<Rightarrow> NegInfinity)"

text \<open>
  \<^verbatim>\<open>Array.prototype.sort\<close> with a comparator: \<open>x\<close> goes after \<open>y\<close> when the comparator
  is positive; \<open>NaN\<close> counts as zero. The sort is stable. (With a comparator that is not
  a consistent order the runtime may return another permutation.)
\<close>

fun insort_cmp :: "('a \<Rightarrow> 'a \<Rightarrow> jsnum) \<Rightarrow> 'a \<Rightarrow> 'a list \<Rightarrow> 'a list" where
  "insort_cmp c x [] = [x]"
| "insort_cmp c x (y # ys) =
     (if (case c x y of Some d \<Rightarrow> 0 < d | None \<Rightarrow> False) then y # insort_cmp c x ys
      else x # y # ys)"

definition js_sort :: "('a \<Rightarrow> 'a \<Rightarrow> jsnum) \<Rightarrow> 'a list \<Rightarrow> 'a list" where
  "js_sort c xs = foldr (insort_cmp c) xs []"

text \<open>
  \<^verbatim>\<open>(a, b) => a.timestamp - b.timestamp\<close>. The sort reads only the sign of the
  difference, and the difference of two binary64 numbers has the sign of the exact
  difference; the comparator is modelled with the exact difference.
\<close>

definition timestamp_cmp :: "(jsval \<Rightarrow> jsnum) \<Rightarrow> jsobject \<Rightarrow> jsobject \<Rightarrow> jsnum" where
  "timestamp_cmp tn a b =
     js_sub (\<lambda>x. x) (ToNumber tn (lookup a (str ''timestamp'')))
       (ToNumber tn (lookup b (str ''timestamp'')))"

text \<open>
  The query \<^verbatim>\<open>orderByChild('timestamp').limitToLast(n)\<close> on \<open>solarData/history\<close>, as
  the Firebase SDK documents it. Children are ordered by the child value: absent first,
  then \<open>false\<close>, \<open>true\<close>, numbers ascending, strings, objects (the order among strings is
  not modelled), children with the same value by key; the last \<open>n\<close> are kept. The
  snapshot's value lists the kept children by key, which for pushed entries is the push
  order.
\<close>

fun fb_rank :: "jsval \<Rightarrow> nat \<times> real" where
  "fb_rank Undefined = (0, 0)"
| "fb_rank Null = (0, 0)"
| "fb_rank (Bool b) = (if b then (2, 0) else (1, 0))"
| "fb_rank (Num x) = (3, x)"
| "fb_rank (Str s) = (4, 0)"
| "fb_rank (Arr xs) = (5, 0)"
| "fb_rank (Obj kvs) = (5, 0)"

definition fb_cmp :: "nat \<times> jsobject \<Rightarrow> nat \<times> jsobject \<Rightarrow> jsnum" where
  "fb_cmp a b =
     (let ka = fb_rank (lookup (snd a) (str ''timestamp''));
          kb = fb_rank (lookup (snd b) (str ''timestamp''))
      in Some (if fst ka < fst kb \<or> (fst ka = fst kb \<and> snd ka < snd kb) then - 1
               else if ka = kb then 0 else 1))"

definition key_cmp :: "nat \<times> jsobject \<Rightarrow> nat \<times> jsobject \<Rightarrow> jsnum" where
  "key_cmp a b = Some (real (fst a) - real (fst b))"

definition limitToLast :: "nat \<Rightarrow> jsobject list \<Rightarrow> jsobject list" where
  "limitToLast n xs =
     (let ordered = js_sort fb_cmp (zip [0..<length xs] xs);
          kept = drop (length ordered - n) ordered
      in map snd (js_sort key_cmp kept))"

text \<open>
  \<^verbatim>\<open>GET /api/history\<close>. The SDK's \<open>limitToLast\<close> throws unless its argument is a number
  \<open>n\<close> with \<^verbatim>\<open>Math.floor(n) === n\<close> and \<open>n > 0\<close>; the \<^verbatim>\<open>catch\<close> block answers 500.
  \<open>Infinity\<close> passes that check, and what the store answers to a query with that limit
  is not documented: that answer is the parameter \<open>unbounded\<close>. The read of the store is
  modelled as succeeding (a failed read also answers 500).
\<close>

definition api_history ::
  "(real \<Rightarrow> real) \<Rightarrow> (jsval \<Rightarrow> jsnum) \<Rightarrow> jsobject list api_response \<Rightarrow> jsstring option
     \<Rightarrow> server_state \<Rightarrow> jsobject list api_response" where
  "api_history rnd tn unbounded q st =
     (case history_limit rnd q of
        NaN \<Rightarrow> ApiError500
      | Finite limit \<Rightarrow>
          if limit \<le> 0 \<or> of_int \<lfloor>limit\<rfloor> \<noteq> limit then ApiError500
          else ApiOk (js_sort (timestamp_cmp tn) (limitToLast (nat \<lfloor>limit\<rfloor>) (db_history st)))
      | PosInfinity \<Rightarrow> unbounded
      | NegInfinity \<Rightarrow> ApiError500)"

section \<open>Notions used in the statements\<close>

text \<open>
  The eight telemetry fields the Arduino sketch prints. A telemetry object has the
  seven measurements as numbers and \<open>dustAlert\<close> as a boolean, and no \<open>error\<close> or
  \<open>status\<close> member.
\<close>

definition required_fields :: "jsstring list" where
  "required_fields =
     [str ''voltage'', str ''current'', str ''power'', str ''angleH'', str ''angleV'',
      str ''light'', str ''dustAlert'', str ''dustRaw'']"

fun is_Num :: "jsval \<Rightarrow> bool" where
  "is_Num (Num x) = True"
| "is_Num v = False"

fun is_Bool :: "jsval \<Rightarrow> bool" where
  "is_Bool (Bool b) = True"
| "is_Bool v = False"

definition telemetry :: "jsobject \<Rightarrow> bool" where
  "telemetry data =
     (list_all (\<lambda>k. is_Num (lookup data k))
        [str ''voltage'', str ''current'', str ''power'', str ''angleH'', str ''angleV'',
         str ''light'', str ''dustRaw'']
      \<and> is_Bool (lookup data (str ''dustAlert''))
      \<and> \<not> has_key data (str ''error'') \<and> \<not> has_key data (str ''status''))"

text \<open>The handler takes the line as a reading: it reaches the assignments of lines 93-96.\<close>

definition accepts :: "jsstring \<Rightarrow> bool" where
  "accepts line =
     (startsWith (trim line) (str ''{'') \<and>
      (case JSON_parse (trim line) of
         Some (Obj data) \<Rightarrow>
           \<not> truthy (lookup data (str ''error'')) \<and> \<not> truthy (lookup data (str ''status''))
       | _ \<Rightarrow> False))"

text \<open>What happens to the server, in the order it happens.\<close>

datatype event =
    SerialLine nat jsstring
  | WeatherFetch nat http_result
  | Prediction nat nat

fun apply_event ::
  "(jsstring \<Rightarrow> db_value \<Rightarrow> bool) \<Rightarrow> (real \<Rightarrow> real) \<Rightarrow> (jsval \<Rightarrow> jsnum) \<Rightarrow> server_state \<Rightarrow> event
     \<Rightarrow> server_state" where
  "apply_event store_ok rnd tn st (SerialLine now line) = onData store_ok now line st"
| "apply_event store_ok rnd tn st (WeatherFetch now res) = fetchWeather store_ok now res st"
| "apply_event store_ok rnd tn st (Prediction h now) = runPrediction store_ok rnd tn h now st"

fun is_accepted_line :: "event \<Rightarrow> bool" where
  "is_accepted_line (SerialLine now line) = accepts line"
| "is_accepted_line ev = False"

text \<open>
  A payload of the weather service that lacks a section: \<open>main\<close>, \<open>clouds\<close>, \<open>wind\<close>,
  \<open>weather\<close> or the first element of \<open>weather\<close> is \<open>undefined\<close> or \<open>null\<close> (as every
  property of a body that is not an object is).
\<close>

definition nullish :: "jsval \<Rightarrow> bool" where
  "nullish v = (v = Undefined \<or> v = Null)"

definition reads_nullish :: "jsval \<Rightarrow> jsstring \<Rightarrow> bool" where
  "reads_nullish v k = (case get v k of Inl e \<Rightarrow> True | Inr x \<Rightarrow> nullish x)"

definition payload_lacks_section :: "jsval \<Rightarrow> bool" where
  "payload_lacks_section data =
     (reads_nullish data (str ''main'') \<or> reads_nullish data (str ''clouds'')
      \<or> reads_nullish data (str ''wind'') \<or> reads_nullish data (str ''weather'')
      \<or> (case get data (str ''weather'') of Inl e \<Rightarrow> True | Inr w \<Rightarrow> reads_nullish w (str ''0'')))"

definition fetch_fails :: "http_result \<Rightarrow> bool" where
  "fetch_fails res =
     (case res of
        NetworkFailure \<Rightarrow> True
      | HttpResponse status data \<Rightarrow>
          status < 200 \<or> 300 \<le> status \<or> payload_lacks_section data)"

text \<open>
  The integer \<open>n\<close> is the one that \<^verbatim>\<open>toFixed(3)\<close> prints for \<open>x\<close>, as \<open>n / 1000\<close>: the nearest
  to \<open>1000 * x\<close>, and of two equally near the one away from zero.
\<close>

definition nearest_thousandth :: "int \<Rightarrow> real \<Rightarrow> bool" where
  "nearest_thousandth n x =
     (if 0 \<le> x then of_int n - 1 / 2 \<le> x * 1000 \<and> x * 1000 < of_int n + 1 / 2
      else of_int n - 1 / 2 < x * 1000 \<and> x * 1000 \<le> of_int n + 1 / 2)"

text \<open>
  The product of line 165 and the product of line 175, for the base power \<open>b\<close>, the
  table entry \<open>f\<close> and the cloud cover \<open>c\<close> that the arithmetic reads: the
  multiplications from left to right, each one rounded.
\<close>

definition boosted_product :: "(real \<Rightarrow> real) \<Rightarrow> real \<Rightarrow> real \<Rightarrow> real \<Rightarrow> real" where
  "boosted_product rnd b f c = rnd (rnd (rnd (b * rnd f) * cloud_factor rnd c) * rnd 1.1)"

definition plain_product :: "(real \<Rightarrow> real) \<Rightarrow> real \<Rightarrow> real \<Rightarrow> real \<Rightarrow> real" where
  "plain_product rnd b f c = rnd (rnd (b * rnd f) * cloud_factor rnd c)"


definition numeric_timestamp :: "jsobject \<Rightarrow> bool" where
  "numeric_timestamp a = is_Num (lookup a (str ''timestamp''))"

text \<open>
  The invariant of the stack machine on a text that starts with \<open>{\<close>: the outermost
  open container is an object, or the result is one.
\<close>

fun obj_bottom :: "frame list \<Rightarrow> bool" where
  "obj_bottom [] = False"
| "obj_bottom [FArr acc] = False"
| "obj_bottom [f] = True"
| "obj_bottom (f # g # st) = obj_bottom (g # st)"

fun good :: "pstate \<Rightarrow> bool" where
  "good (ExpVal st) = obj_bottom st"
| "good (ExpValOrEnd st) = obj_bottom st"
| "good (ExpKeyOrEnd st) = obj_bottom st"
| "good (ExpKey st) = obj_bottom st"
| "good (ExpColon st) = obj_bottom st"
| "good (AfterVal st) = obj_bottom st"
| "good (Done v) = (case v of Obj kvs \<Rightarrow> True | _ \<Rightarrow> False)"
| "good Fail = True"

text \<open>The telemetry line of the end-to-end scenario, and the object it denotes.\<close>

definition example_line :: jsstring where
  \<open>example_line = str ''{"voltage":5.0,"current":1000,"power":5.0,"angleH":90,"angleV":90,"light":50,"dustAlert":false,"dustRaw":700}''\<close>

definition example_data :: jsobject where
  "example_data =
     [(str ''voltage'', Num 5), (str ''current'', Num 1000), (str ''power'', Num 5),
      (str ''angleH'', Num 90), (str ''angleV'', Num 90), (str ''light'', Num 50),
      (str ''dustAlert'', Bool False), (str ''dustRaw'', Num 700)]"

text \<open>The second reading of the scenario.\<close>

definition second_line :: jsstring where
  \<open>second_line = str ''{"voltage":5.0,"current":1200,"power":6.0,"angleH":91,"angleV":90,"light":55,"dustAlert":false,"dustRaw":700}''\<close>

definition second_data :: jsobject where
  "second_data =
     [(str ''voltage'', Num 5), (str ''current'', Num 1200), (str ''power'', Num 6),
      (str ''angleH'', Num 91), (str ''angleV'', Num 90), (str ''light'', Num 55),
      (str ''dustAlert'', Bool False), (str ''dustRaw'', Num 700)]"

text \<open>
  A stored weather snapshot, and a response body that has every section but no
  temperature and no humidity.
\<close>

definition example_snapshot :: jsobject where
  "example_snapshot =
     [(str ''temp'', Num 32.4), (str ''humidity'', Num 65), (str ''clouds'', Num 20),
      (str ''description'', Str (str ''few clouds'')), (str ''windSpeed'', Num 3.2),
      (str ''timestamp'', Num 1708612345000)]"

definition payload_without_temperature :: jsval where
  "payload_without_temperature =
     Obj [(str ''main'', Obj []),
          (str ''clouds'', Obj [(str ''all'', Num 90)]),
          (str ''weather'', Arr [Obj [(str ''description'', Str (str ''overcast clouds''))]]),
          (str ''wind'', Obj [(str ''speed'', Num 4.1)])]"

text \<open>
  States for the examples: a reading of 10 W under a clear sky, the same under full
  cloud cover and under a cloud cover of 1 percent, and a history of three entries
  pushed out of time order.
\<close>

definition clear_sky_state :: server_state where
  "clear_sky_state =
     (initial_state 1708612340000)
       \<lparr>latestReading := [(str ''power'', Num 10), (str ''timestamp'', Num 1708612345000)],
        weatherCache := [(str ''clouds'', Num 0)]\<rparr>"

definition overcast_state :: server_state where
  "overcast_state =
     (initial_state 1708612340000)
       \<lparr>latestReading := [(str ''power'', Num 10), (str ''timestamp'', Num 1708612345000)],
        weatherCache := [(str ''clouds'', Num 100)]\<rparr>"

definition light_cloud_state :: server_state where
  "light_cloud_state =
     (initial_state 1708612340000)
       \<lparr>latestReading := [(str ''power'', Num 10), (str ''timestamp'', Num 1708612345000)],
        weatherCache := [(str ''clouds'', Num 1)]\<rparr>"

definition three_entries_state :: server_state where
  "three_entries_state =
     (initial_state 1708612340000)
       \<lparr>db_history :=
          [[(str ''power'', Num 7), (str ''timestamp'', Num 300)],
           [(str ''power'', Num 5), (str ''timestamp'', Num 100)],
           [(str ''power'', Num 6), (str ''timestamp'', Num 200)]]\<rparr>"

section \<open>\<^verbatim>\<open>JSON.parse\<close> on a text that starts with a brace\<close>

lemma good_deliver: "obj_bottom st \<Longrightarrow> good (deliver v st)"
  by (induction v st rule: deliver.induct) (auto elim: obj_bottom.elims)

lemma obj_bottom_push: "obj_bottom st \<Longrightarrow> obj_bottom (f # st)"
  by (cases st) auto

lemma good_begin_value: "obj_bottom st \<Longrightarrow> good (begin_value t st)"
  by (cases t) (auto simp: good_deliver obj_bottom_push)

lemma good_close_array: "obj_bottom st \<Longrightarrow> good (close_array st)"
  by (induction st rule: close_array.induct) (auto intro: good_deliver elim: obj_bottom.elims)

lemma good_close_object: "obj_bottom st \<Longrightarrow> good (close_object st)"
  by (induction st rule: close_object.induct) (auto intro: good_deliver elim: obj_bottom.elims)

lemma good_read_key: "obj_bottom st \<Longrightarrow> good (read_key k st)"
  by (induction k st rule: read_key.induct) (auto elim: obj_bottom.elims)

lemma good_after_comma: "obj_bottom st \<Longrightarrow> good (after_comma st)"
  by (induction st rule: after_comma.induct) auto

lemma good_step: "good ps \<Longrightarrow> good (step ps t)"
  by (cases ps)
     (auto simp: good_begin_value good_close_array good_close_object good_read_key
        good_after_comma
      simp del: begin_value.simps split: token.splits)

lemma good_foldl: "good ps \<Longrightarrow> good (foldl step ps ts)"
  by (induction ts arbitrary: ps) (auto simp: good_step)

lemma JSON_parse_brace:
  assumes "startsWith s (str ''{'')" and "JSON_parse s = Some v"
  shows "\<exists>data. v = Obj data"
proof -
  from assms(1) obtain cs where s: "s = 0x7B # cs"
    by (cases s) (auto simp: startsWith_def str_def)
  from assms(2) obtain ts where ts: "lex s = Some ts"
    and run: "foldl step (ExpVal []) ts = Done v"
    by (auto simp: JSON_parse_def split: option.splits pstate.splits)
  from ts s obtain ts' where ts': "ts = TLBrace # ts'"
    by (auto simp: json_ws_def)
  have "good (foldl step (ExpKeyOrEnd [FObj []]) ts')"
    by (rule good_foldl) simp
  with run ts' have "good (Done v)" by simp
  then show ?thesis by (cases v) auto
qed

section \<open>The serial handler\<close>

lemma onData_not_json:
  "\<not> startsWith (trim line) (str ''{'') \<Longrightarrow> onData store_ok now line st = st"
  by (simp add: onData_def)

lemma onData_malformed:
  "JSON_parse (trim line) = None \<Longrightarrow> onData store_ok now line st = st"
  by (simp add: onData_def Let_def)

lemma onData_message:
  assumes "startsWith (trim line) (str ''{'')"
    and "JSON_parse (trim line) = Some (Obj data)"
    and "truthy (lookup data (str ''error'')) \<or> truthy (lookup data (str ''status''))"
  shows "onData store_ok now line st =
    st\<lparr>console := console st @
      [LogArduino (js_or (lookup data (str ''error'')) (lookup data (str ''status'')))]\<rparr>"
  using assms by (auto simp: onData_def Let_def js_or_def)

lemma onData_reading:
  assumes "startsWith (trim line) (str ''{'')"
    and "JSON_parse (trim line) = Some (Obj data)"
    and "\<not> truthy (lookup data (str ''error''))"
    and "\<not> truthy (lookup data (str ''status''))"
    and "store_ok (str ''solarData/live'')
           (ObjectValue (put data (str ''timestamp'') (Num (real now))))"
    and "store_ok (str ''solarData/history'')
           (ObjectValue (put data (str ''timestamp'') (Num (real now))))"
  shows "onData store_ok now line st =
    st\<lparr>latestReading := put data (str ''timestamp'') (Num (real now)),
       db_live := Some (put data (str ''timestamp'') (Num (real now))),
       db_history := db_history st @ [put data (str ''timestamp'') (Num (real now))],
       console := console st @ [LogReading (put data (str ''timestamp'') (Num (real now)))]\<rparr>"
  using assms by (simp add: onData_def Let_def js_or_def)

text \<open>The store refuses the reading: it is the latest reading all the same.\<close>

lemma onData_live_refused:
  assumes "startsWith (trim line) (str ''{'')"
    and "JSON_parse (trim line) = Some (Obj data)"
    and "\<not> truthy (lookup data (str ''error''))"
    and "\<not> truthy (lookup data (str ''status''))"
    and "\<not> store_ok (str ''solarData/live'')
           (ObjectValue (put data (str ''timestamp'') (Num (real now))))"
  shows "onData store_ok now line st =
    st\<lparr>latestReading := put data (str ''timestamp'') (Num (real now))\<rparr>"
  using assms by (simp add: onData_def Let_def js_or_def)

lemma onData_history_refused:
  assumes "startsWith (trim line) (str ''{'')"
    and "JSON_parse (trim line) = Some (Obj data)"
    and "\<not> truthy (lookup data (str ''error''))"
    and "\<not> truthy (lookup data (str ''status''))"
    and "store_ok (str ''solarData/live'')
           (ObjectValue (put data (str ''timestamp'') (Num (real now))))"
    and "\<not> store_ok (str ''solarData/history'')
           (ObjectValue (put data (str ''timestamp'') (Num (real now))))"
  shows "onData store_ok now line st =
    st\<lparr>latestReading := put data (str ''timestamp'') (Num (real now)),
       db_live := Some (put data (str ''timestamp'') (Num (real now)))\<rparr>"
  using assms by (simp add: onData_def Let_def js_or_def)

lemma onData_latestReading:
  assumes "startsWith (trim line) (str ''{'')"
    and "JSON_parse (trim line) = Some (Obj data)"
    and "\<not> truthy (lookup data (str ''error''))"
    and "\<not> truthy (lookup data (str ''status''))"
  shows "latestReading (onData store_ok now line st)
    = put data (str ''timestamp'') (Num (real now))"
  using assms by (simp add: onData_def Let_def js_or_def)

lemma lookup_put_same: "lookup (put kvs k v) k = v"
  by (induction kvs) auto

lemma lookup_put_other: "k' \<noteq> k \<Longrightarrow> lookup (put kvs k v) k' = lookup kvs k'"
  by (induction kvs) auto

lemma lookup_absent: "\<not> has_key kvs k \<Longrightarrow> lookup kvs k = Undefined"
  by (induction kvs) auto

text \<open>
  C9. A line that, once trimmed, does not begin with \<open>{\<close> is dropped without a trace:
  the handler returns the state it was given, so the latest reading, the history, the
  live entry of the database and the console are exactly as before.
\<close>

theorem non_json_line_ignored:
  assumes "\<not> startsWith (trim line) (str ''{'')"
  shows "onData store_ok now line st = st
    \<and> latestReading (onData store_ok now line st) = latestReading st
    \<and> db_history (onData store_ok now line st) = db_history st"
  using assms by (simp add: onData_def Let_def)

theorem non_json_line_ignored_witness:
  "\<not> startsWith (trim (str ''  Solar Tracker Ready  '')) (str ''{'')
   \<and> onData firebase_accepts 1708612345000 (str ''  Solar Tracker Ready  '') (initial_state 1708612340000)
       = initial_state 1708612340000"
proof -
  have h: "\<not> startsWith (trim (str ''  Solar Tracker Ready  '')) (str ''{'')"
    by (simp add: startsWith_def trim_def trimStart_def str_def js_whitespace_def)
  show ?thesis
    using h non_json_line_ignored [OF h, of firebase_accepts] by simp
qed

section \<open>Evaluating the handler on concrete lines\<close>

lemmas line_eval =
  JSON_parse_def str_def json_ws_def is_num_char_def is_digit_def num_value_def
  num_exponent_def scale10_def digits_val_def startsWith_def binary64_underflow_def
  trim_def trimStart_def js_whitespace_def Let_def

lemmas store_eval = valid_key_def finite64_def

lemma trim_example_line: "trim example_line = example_line"
  by (simp add: example_line_def trim_def trimStart_def str_def js_whitespace_def)

lemma example_line_brace: "startsWith example_line (str ''{'')"
  by (simp add: example_line_def startsWith_def str_def)

lemma parse_example_line: "JSON_parse example_line = Some (Obj example_data)"
  unfolding example_line_def example_data_def by (simp add: line_eval)

lemma telemetry_example_data: "telemetry example_data"
  by (simp add: telemetry_def example_data_def str_def)

lemma telemetry_not_message:
  "telemetry data \<Longrightarrow>
   \<not> truthy (lookup data (str ''error'')) \<and> \<not> truthy (lookup data (str ''status''))"
  by (simp add: telemetry_def lookup_absent)

text \<open>
  C7. A well-formed telemetry line (the trimmed line starts with \<open>{\<close> and decodes to a
  telemetry object) becomes the latest reading: the stored object is the decoded one
  with \<open>timestamp\<close> set, so every other field reads as in the input, and \<open>timestamp\<close> is
  the handler's \<^verbatim>\<open>Date.now()\<close>, whether or not the input had a \<open>timestamp\<close> of its own.
\<close>

theorem telemetry_line_becomes_reading:
  assumes "startsWith (trim line) (str ''{'')"
    and "JSON_parse (trim line) = Some (Obj data)"
    and "telemetry data"
  shows "latestReading (onData store_ok now line st) = put data (str ''timestamp'') (Num (real now))
    \<and> (\<forall>k. k \<noteq> str ''timestamp'' \<longrightarrow>
          lookup (latestReading (onData store_ok now line st)) k = lookup data k)
    \<and> lookup (latestReading (onData store_ok now line st)) (str ''timestamp'') = Num (real now)"
proof -
  from telemetry_not_message [OF assms(3)]
  have "latestReading (onData store_ok now line st)
      = put data (str ''timestamp'') (Num (real now))"
    using onData_latestReading [OF assms(1) assms(2)] by simp
  then show ?thesis
    by (simp add: lookup_put_same lookup_put_other)
qed

theorem telemetry_line_becomes_reading_witness:
  "startsWith (trim example_line) (str ''{'')
   \<and> JSON_parse (trim example_line) = Some (Obj example_data)
   \<and> telemetry example_data
   \<and> latestReading (onData firebase_accepts 1708612345000 example_line (initial_state 1708612340000))
       = example_data @ [(str ''timestamp'', Num 1708612345000)]
   \<and> lookup (latestReading (onData firebase_accepts 1708612345000 example_line (initial_state 1708612340000)))
        (str ''power'') = Num 5"
proof -
  have a: "startsWith (trim example_line) (str ''{'')"
    by (simp add: trim_example_line example_line_brace)
  have b: "JSON_parse (trim example_line) = Some (Obj example_data)"
    by (simp add: trim_example_line parse_example_line)
  have c: "telemetry example_data"
    by (rule telemetry_example_data)
  have d: "put example_data (str ''timestamp'') (Num 1708612345000)
      = example_data @ [(str ''timestamp'', Num 1708612345000)]"
    by (simp add: example_data_def str_def)
  have e: "lookup example_data (str ''power'') = Num 5"
    by (simp add: example_data_def str_def)
  have f: "str ''power'' \<noteq> str ''timestamp''"
    by (simp add: str_def)
  note t = telemetry_line_becomes_reading
    [OF a b c, of firebase_accepts 1708612345000 "initial_state 1708612340000"]
  from t d have l:
    "latestReading (onData firebase_accepts 1708612345000 example_line (initial_state 1708612340000))
       = example_data @ [(str ''timestamp'', Num 1708612345000)]"
    by simp
  from t f have
    "lookup (latestReading (onData firebase_accepts 1708612345000 example_line (initial_state 1708612340000)))
       (str ''power'') = lookup example_data (str ''power'')"
    by blast
  with e have p:
    "lookup (latestReading (onData firebase_accepts 1708612345000 example_line (initial_state 1708612340000)))
       (str ''power'') = Num 5"
    by simp
  from a b c l p show ?thesis
    by blast
qed

text \<open>
  The input's own \<open>timestamp\<close> is overwritten: a line that carries one is stored with
  the handler's time.
\<close>

lemma input_timestamp_overwritten:
  \<open>lookup (latestReading (onData firebase_accepts 1708612345000 (str ''{"power":5.0,"timestamp":1}'')
      (initial_state 1708612340000))) (str ''timestamp'') = Num 1708612345000\<close>
  by (simp add: onData_def initial_state_def js_or_def line_eval store_eval)

text \<open>
  The store, as documented, takes a stamped object whose keys are valid and whose
  values it can hold.
\<close>

lemma valid_members_put:
  "valid_members data \<Longrightarrow> valid_key k \<Longrightarrow> valid_value v \<Longrightarrow> valid_members (put data k v)"
  by (induction data) auto

lemma firebase_accepts_reading:
  assumes "valid_members data" and "now < 2 ^ 53"
  shows "firebase_accepts path (ObjectValue (put data (str ''timestamp'') (Num (real now))))"
proof -
  have "real now < 2 ^ 53"
    using assms(2) by (metis of_nat_less_iff of_nat_numeral of_nat_power)
  also have "(2 :: real) ^ 53 < 2 ^ 1024 - 2 ^ 970"
    by simp
  finally have "finite64 (real now)"
    by (simp add: finite64_def)
  moreover have "valid_key (str ''timestamp'')"
    by (simp add: valid_key_def str_def)
  ultimately show ?thesis
    using assms(1) by (simp add: valid_members_put)
qed

text \<open>
  C1, as the code has it. The handler has no check of the telemetry fields and no
  \<open>MissingField\<close> error: every line that decodes to an object without a truthy \<open>error\<close>
  or \<open>status\<close> is accepted, whatever fields it lacks or mistypes. It gets the timestamp
  and replaces the latest reading, and each required field reads in the stored reading
  as it does in the input (\<open>undefined\<close> when it is missing). When the store takes the
  stamped object it is written to \<open>solarData/live\<close> and appended to the history; when
  the store refuses it at \<open>solarData/live\<close> neither is written, and when it refuses it
  only at \<open>solarData/history\<close> the live entry is written and the history is not. The
  store as documented takes it when the keys of the object are valid and its values
  are ones the store can hold.
\<close>

theorem incomplete_object_accepted:
  assumes "startsWith (trim line) (str ''{'')"
    and "JSON_parse (trim line) = Some (Obj data)"
    and "\<not> truthy (lookup data (str ''error''))"
    and "\<not> truthy (lookup data (str ''status''))"
  shows "latestReading (onData store_ok now line st)
      = put data (str ''timestamp'') (Num (real now))
    \<and> (\<forall>f \<in> set required_fields.
          lookup (latestReading (onData store_ok now line st)) f = lookup data f)
    \<and> (store_ok (str ''solarData/live'')
          (ObjectValue (put data (str ''timestamp'') (Num (real now))))
        \<and> store_ok (str ''solarData/history'')
          (ObjectValue (put data (str ''timestamp'') (Num (real now))))
        \<longrightarrow> db_live (onData store_ok now line st)
              = Some (put data (str ''timestamp'') (Num (real now)))
          \<and> db_history (onData store_ok now line st)
              = db_history st @ [put data (str ''timestamp'') (Num (real now))])
    \<and> (\<not> store_ok (str ''solarData/live'')
          (ObjectValue (put data (str ''timestamp'') (Num (real now))))
        \<longrightarrow> db_live (onData store_ok now line st) = db_live st
          \<and> db_history (onData store_ok now line st) = db_history st)
    \<and> (store_ok (str ''solarData/live'')
          (ObjectValue (put data (str ''timestamp'') (Num (real now))))
        \<and> \<not> store_ok (str ''solarData/history'')
          (ObjectValue (put data (str ''timestamp'') (Num (real now))))
        \<longrightarrow> db_live (onData store_ok now line st)
              = Some (put data (str ''timestamp'') (Num (real now)))
          \<and> db_history (onData store_ok now line st) = db_history st)
    \<and> (valid_members data \<and> now < 2 ^ 53
        \<longrightarrow> db_live (onData firebase_accepts now line st)
              = Some (put data (str ''timestamp'') (Num (real now)))
          \<and> db_history (onData firebase_accepts now line st)
              = db_history st @ [put data (str ''timestamp'') (Num (real now))])"
proof -
  have "\<forall>f \<in> set required_fields. f \<noteq> str ''timestamp''"
    by (simp add: required_fields_def str_def)
  then have general: "latestReading (onData store_ok now line st)
      = put data (str ''timestamp'') (Num (real now))
    \<and> (\<forall>f \<in> set required_fields.
          lookup (latestReading (onData store_ok now line st)) f = lookup data f)
    \<and> (store_ok (str ''solarData/live'')
          (ObjectValue (put data (str ''timestamp'') (Num (real now))))
        \<and> store_ok (str ''solarData/history'')
          (ObjectValue (put data (str ''timestamp'') (Num (real now))))
        \<longrightarrow> db_live (onData store_ok now line st)
              = Some (put data (str ''timestamp'') (Num (real now)))
          \<and> db_history (onData store_ok now line st)
              = db_history st @ [put data (str ''timestamp'') (Num (real now))])
    \<and> (\<not> store_ok (str ''solarData/live'')
          (ObjectValue (put data (str ''timestamp'') (Num (real now))))
        \<longrightarrow> db_live (onData store_ok now line st) = db_live st
          \<and> db_history (onData store_ok now line st) = db_history st)
    \<and> (store_ok (str ''solarData/live'')
          (ObjectValue (put data (str ''timestamp'') (Num (real now))))
        \<and> \<not> store_ok (str ''solarData/history'')
          (ObjectValue (put data (str ''timestamp'') (Num (real now))))
        \<longrightarrow> db_live (onData store_ok now line st)
              = Some (put data (str ''timestamp'') (Num (real now)))
          \<and> db_history (onData store_ok now line st) = db_history st)"
    using onData_reading [OF assms, of store_ok now st]
      onData_live_refused [OF assms, of store_ok now st]
      onData_history_refused [OF assms, of store_ok now st]
      onData_latestReading [OF assms, of store_ok now st]
    by (simp add: lookup_put_other)
  have documented: "db_live (onData firebase_accepts now line st)
        = Some (put data (str ''timestamp'') (Num (real now)))
      \<and> db_history (onData firebase_accepts now line st)
        = db_history st @ [put data (str ''timestamp'') (Num (real now))]"
    if v: "valid_members data" and n: "now < 2 ^ 53"
    using onData_reading [where store_ok = firebase_accepts and st = st, OF assms
        firebase_accepts_reading [OF v n] firebase_accepts_reading [OF v n]]
    by simp
  from general documented show ?thesis
    by blast
qed

theorem incomplete_object_accepted_witness:
  \<open>startsWith (trim (str ''{"voltage":"high"}'')) (str ''{'')
   \<and> JSON_parse (trim (str ''{"voltage":"high"}'')) = Some (Obj [(str ''voltage'', Str (str ''high''))])
   \<and> firebase_accepts (str ''solarData/live'')
        (ObjectValue [(str ''voltage'', Str (str ''high'')), (str ''timestamp'', Num 1708612345000)])
   \<and> firebase_accepts (str ''solarData/history'')
        (ObjectValue [(str ''voltage'', Str (str ''high'')), (str ''timestamp'', Num 1708612345000)])
   \<and> db_history (onData firebase_accepts 1708612345000 (str ''{"voltage":"high"}'')
         (initial_state 1708612340000))
       = [[(str ''voltage'', Str (str ''high'')), (str ''timestamp'', Num 1708612345000)]]
   \<and> lookup (latestReading
         (onData firebase_accepts 1708612345000 (str ''{"voltage":"high"}'')
            (initial_state 1708612340000)))
        (str ''current'') = Undefined\<close>
proof -
  have a: \<open>startsWith (trim (str ''{"voltage":"high"}'')) (str ''{'')\<close>
    by (simp add: line_eval)
  have b: \<open>JSON_parse (trim (str ''{"voltage":"high"}''))
      = Some (Obj [(str ''voltage'', Str (str ''high''))])\<close>
    by (simp add: line_eval)
  have c: "\<not> truthy (lookup [(str ''voltage'', Str (str ''high''))] (str ''error''))"
    by (simp add: str_def)
  have d: "\<not> truthy (lookup [(str ''voltage'', Str (str ''high''))] (str ''status''))"
    by (simp add: str_def)
  have e: "str ''current'' \<in> set required_fields"
    by (simp add: required_fields_def)
  have f: "lookup [(str ''voltage'', Str (str ''high''))] (str ''current'') = Undefined"
    by (simp add: str_def)
  have g: "put [(str ''voltage'', Str (str ''high''))] (str ''timestamp'') (Num 1708612345000)
      = [(str ''voltage'', Str (str ''high'')), (str ''timestamp'', Num 1708612345000)]"
    by (simp add: str_def)
  have h: "db_history (initial_state 1708612340000) = []"
    by (simp add: initial_state_def)
  have s1: "firebase_accepts (str ''solarData/live'')
      (ObjectValue [(str ''voltage'', Str (str ''high'')), (str ''timestamp'', Num 1708612345000)])"
    by (simp add: str_def store_eval)
  have s2: "firebase_accepts (str ''solarData/history'')
      (ObjectValue [(str ''voltage'', Str (str ''high'')), (str ''timestamp'', Num 1708612345000)])"
    by (simp add: str_def store_eval)
  note t = incomplete_object_accepted
    [OF a b c d, of firebase_accepts 1708612345000 "initial_state 1708612340000"]
  from t g h s1 s2 have l:
    \<open>db_history (onData firebase_accepts 1708612345000 (str ''{"voltage":"high"}'')
         (initial_state 1708612340000))
       = [[(str ''voltage'', Str (str ''high'')), (str ''timestamp'', Num 1708612345000)]]\<close>
    by simp
  from t e have
    \<open>lookup (latestReading
         (onData firebase_accepts 1708612345000 (str ''{"voltage":"high"}'')
            (initial_state 1708612340000)))
        (str ''current'') = lookup [(str ''voltage'', Str (str ''high''))] (str ''current'')\<close>
    by blast
  with f have p:
    \<open>lookup (latestReading
         (onData firebase_accepts 1708612345000 (str ''{"voltage":"high"}'')
            (initial_state 1708612340000)))
        (str ''current'') = Undefined\<close>
    by simp
  from a b s1 s2 l p show ?thesis
    by blast
qed

theorem missing_field_counterexample:
  \<open>latestReading (onData firebase_accepts 1708612345000 (str ''{"voltage":5.82}'')
       (initial_state 1708612340000))
     = [(str ''voltage'', Num 5.82), (str ''timestamp'', Num 1708612345000)]
   \<and> db_live (onData firebase_accepts 1708612345000 (str ''{"voltage":5.82}'')
       (initial_state 1708612340000))
     = Some [(str ''voltage'', Num 5.82), (str ''timestamp'', Num 1708612345000)]
   \<and> db_history (onData firebase_accepts 1708612345000 (str ''{"voltage":5.82}'')
       (initial_state 1708612340000))
     = [[(str ''voltage'', Num 5.82), (str ''timestamp'', Num 1708612345000)]]\<close>
  by (simp add: onData_def initial_state_def js_or_def line_eval store_eval)

text \<open>
  A line whose object the store refuses (a key with a dot): the write throws inside
  the \<^verbatim>\<open>try\<close> block, after the assignment of line 96. The object is the latest reading;
  \<open>solarData/live\<close>, the history and the console are as before.
\<close>

lemma refused_reading_example:
  \<open>onData firebase_accepts 1708612345000 (str ''{"a.b":1}'') (initial_state 1708612340000)
     = (initial_state 1708612340000)
         \<lparr>latestReading := [(str ''a.b'', Num 1), (str ''timestamp'', Num 1708612345000)]\<rparr>\<close>
  by (simp add: onData_def initial_state_def js_or_def line_eval store_eval)

text \<open>
  C5, as the code has it. The guard of line 87 tests the values, not the keys: a line
  that decodes to an object whose \<open>error\<close> or \<open>status\<close> is truthy is a device message,
  whether or not telemetry fields are present. It is logged with the text
  \<^verbatim>\<open>data.error || data.status\<close> and nothing else changes; the line is not accepted as a
  reading. (An object whose \<open>error\<close> and \<open>status\<close> are absent or falsy is a reading.)
\<close>

theorem device_message_logged:
  assumes "startsWith (trim line) (str ''{'')"
    and "JSON_parse (trim line) = Some (Obj data)"
    and "truthy (lookup data (str ''error'')) \<or> truthy (lookup data (str ''status''))"
  shows "onData store_ok now line st =
      st\<lparr>console := console st @
        [LogArduino (if truthy (lookup data (str ''error'')) then lookup data (str ''error'')
                     else lookup data (str ''status''))]\<rparr>
    \<and> latestReading (onData store_ok now line st) = latestReading st
    \<and> db_live (onData store_ok now line st) = db_live st
    \<and> db_history (onData store_ok now line st) = db_history st
    \<and> \<not> accepts line"
proof -
  have "\<not> accepts line"
    using assms by (auto simp: accepts_def)
  then show ?thesis
    using onData_message [OF assms] by (simp add: js_or_def)
qed

theorem device_message_logged_witness:
  \<open>startsWith (trim (str ''{"status":"Solar Tracker Ready"}'')) (str ''{'')
   \<and> JSON_parse (trim (str ''{"status":"Solar Tracker Ready"}''))
       = Some (Obj [(str ''status'', Str (str ''Solar Tracker Ready''))])
   \<and> onData firebase_accepts 1708612345000 (str ''{"status":"Solar Tracker Ready"}'') (initial_state 1708612340000)
       = (initial_state 1708612340000)
           \<lparr>console := [LogArduino (Str (str ''Solar Tracker Ready''))]\<rparr>\<close>
proof -
  have a: \<open>startsWith (trim (str ''{"status":"Solar Tracker Ready"}'')) (str ''{'')\<close>
    by (simp add: line_eval)
  have b: \<open>JSON_parse (trim (str ''{"status":"Solar Tracker Ready"}''))
      = Some (Obj [(str ''status'', Str (str ''Solar Tracker Ready''))])\<close>
    by (simp add: line_eval)
  have c: "truthy (lookup [(str ''status'', Str (str ''Solar Tracker Ready''))] (str ''error''))
      \<or> truthy (lookup [(str ''status'', Str (str ''Solar Tracker Ready''))] (str ''status''))"
    by (simp add: str_def)
  have d: "(if truthy (lookup [(str ''status'', Str (str ''Solar Tracker Ready''))] (str ''error''))
       then lookup [(str ''status'', Str (str ''Solar Tracker Ready''))] (str ''error'')
       else lookup [(str ''status'', Str (str ''Solar Tracker Ready''))] (str ''status''))
      = Str (str ''Solar Tracker Ready'')"
    by (simp add: str_def)
  have e: "console (initial_state 1708612340000) = []"
    by (simp add: initial_state_def)
  note t = device_message_logged
    [OF a b c, of firebase_accepts 1708612345000 "initial_state 1708612340000"]
  from t d e have l:
    \<open>onData firebase_accepts 1708612345000 (str ''{"status":"Solar Tracker Ready"}'') (initial_state 1708612340000)
       = (initial_state 1708612340000)
           \<lparr>console := [LogArduino (Str (str ''Solar Tracker Ready''))]\<rparr>\<close>
    by simp
  from a b l show ?thesis
    by blast
qed

theorem device_message_counterexample:
  \<open>JSON_parse (trim (str ''{"status":""}'')) = Some (Obj [(str ''status'', Str [])])
   \<and> latestReading (onData firebase_accepts 1708612345000 (str ''{"status":""}'') (initial_state 1708612340000))
     = [(str ''status'', Str []), (str ''timestamp'', Num 1708612345000)]
   \<and> db_history (onData firebase_accepts 1708612345000 (str ''{"status":""}'') (initial_state 1708612340000))
     = [[(str ''status'', Str []), (str ''timestamp'', Num 1708612345000)]]
   \<and> console (onData firebase_accepts 1708612345000 (str ''{"status":""}'') (initial_state 1708612340000))
     = [LogReading [(str ''status'', Str []), (str ''timestamp'', Num 1708612345000)]]\<close>
  by (simp add: onData_def initial_state_def js_or_def line_eval store_eval)

section \<open>The state at start\<close>

lemma onData_not_accepted:
  "\<not> accepts line \<Longrightarrow> latestReading (onData store_ok now line st) = latestReading st"
  by (auto simp: onData_def accepts_def Let_def js_or_def split: option.splits jsval.splits)

lemma fetchWeather_latestReading:
  "latestReading (fetchWeather store_ok now res st) = latestReading st"
  by (simp add: fetchWeather_def split: http_result.splits sum.splits)

lemma runPrediction_latestReading:
  "latestReading (runPrediction store_ok rnd tn h now st) = latestReading st"
  by (simp add: runPrediction_def Let_def)

lemma runPrediction_weatherCache:
  "weatherCache (runPrediction store_ok rnd tn h now st) = weatherCache st"
  by (simp add: runPrediction_def Let_def)

lemma apply_event_latestReading:
  "\<not> is_accepted_line ev \<Longrightarrow> latestReading (apply_event store_ok rnd tn st ev) = latestReading st"
  by (cases ev)
     (simp_all add: onData_not_accepted fetchWeather_latestReading runPrediction_latestReading)

lemma run_latestReading:
  "\<not> list_ex is_accepted_line evs \<Longrightarrow>
   latestReading (foldl (apply_event store_ok rnd tn) st evs) = latestReading st"
  by (induction evs arbitrary: st) (simp_all add: apply_event_latestReading)

text \<open>
  C3, as the code has it. The three variables are not absent at start: \<open>latestReading\<close>
  is a placeholder reading (zeros, both angles 90, no dust alert, the start time as
  \<open>timestamp\<close>), \<open>weatherCache\<close> is the empty object and \<open>predictionCache\<close> is a forecast
  of zero power, zero confidence and no entries. Until the first line is accepted,
  whatever other lines, weather fetches and predictions happen, \<^verbatim>\<open>GET /api/live\<close>
  answers with success and that placeholder.
\<close>

theorem placeholder_until_first_reading:
  assumes "\<not> list_ex is_accepted_line evs"
  shows "api_live (foldl (apply_event store_ok rnd tn) (initial_state t0) evs)
      = ApiOk [(str ''voltage'', Num 0), (str ''current'', Num 0), (str ''power'', Num 0),
               (str ''angleH'', Num 90), (str ''angleV'', Num 90), (str ''light'', Num 0),
               (str ''dustAlert'', Bool False), (str ''dustRaw'', Num 0),
               (str ''timestamp'', Num (real t0))]
    \<and> weatherCache (initial_state t0) = []
    \<and> predictionCache (initial_state t0)
        = \<lparr> predicted_power = Some 0, confidence = Some 0, peak_hour = None,
            forecast = [], timestamp = None \<rparr>"
  using run_latestReading [OF assms, of store_ok rnd tn "initial_state t0"]
  by (simp add: api_live_def initial_state_def)

theorem placeholder_until_first_reading_witness:
  "\<not> list_ex is_accepted_line
       [SerialLine 1708612341000 (str ''garbage''), WeatherFetch 1708612342000 NetworkFailure,
        Prediction 11 1708612343000]
   \<and> api_live (foldl (apply_event firebase_accepts binary64 (\<lambda>v. None)) (initial_state 1708612340000)
        [SerialLine 1708612341000 (str ''garbage''), WeatherFetch 1708612342000 NetworkFailure,
         Prediction 11 1708612343000])
      = ApiOk [(str ''voltage'', Num 0), (str ''current'', Num 0), (str ''power'', Num 0),
               (str ''angleH'', Num 90), (str ''angleV'', Num 90), (str ''light'', Num 0),
               (str ''dustAlert'', Bool False), (str ''dustRaw'', Num 0),
               (str ''timestamp'', Num 1708612340000)]"
proof -
  have a: "\<not> list_ex is_accepted_line
      [SerialLine 1708612341000 (str ''garbage''), WeatherFetch 1708612342000 NetworkFailure,
       Prediction 11 1708612343000]"
    by (simp add: accepts_def line_eval)
  from placeholder_until_first_reading
    [OF a, of firebase_accepts binary64 "\<lambda>v. None" 1708612340000] a
  show ?thesis by simp
qed

theorem initial_state_counterexample:
  "api_live (initial_state 1708612340000)
     = ApiOk [(str ''voltage'', Num 0), (str ''current'', Num 0), (str ''power'', Num 0),
              (str ''angleH'', Num 90), (str ''angleV'', Num 90), (str ''light'', Num 0),
              (str ''dustAlert'', Bool False), (str ''dustRaw'', Num 0),
              (str ''timestamp'', Num 1708612340000)]
   \<and> latestReading (initial_state 1708612340000) \<noteq> []
   \<and> predicted_power (predictionCache (initial_state 1708612340000)) = Some 0"
  by (simp add: api_live_def initial_state_def)

section \<open>The weather fetch\<close>

lemma get2_nullish: "reads_nullish v a \<Longrightarrow> get2 v a b = Inl TypeError"
  by (cases "get v a")
     (auto simp: reads_nullish_def get2_def sbind_def nullish_def intro: js_error.exhaust)

lemma get_weather0_nullish:
  "(case get data (str ''weather'') of Inl e \<Rightarrow> True | Inr w \<Rightarrow> reads_nullish w (str ''0''))
   \<Longrightarrow> sbind (get2 data (str ''weather'') (str ''0'')) (\<lambda>w. get w k) = Inl TypeError"
  by (cases "get data (str ''weather'')")
     (auto simp: reads_nullish_def get2_def sbind_def nullish_def
           intro: js_error.exhaust split: sum.splits)

lemma js_error_TypeError: "(e :: js_error) = TypeError"
  by (cases e) simp

lemma weather_of_fails:
  assumes "payload_lacks_section data"
  shows "weather_of now data = Inl TypeError"
proof -
  have main: "reads_nullish data (str ''main'') \<Longrightarrow> ?thesis"
    by (simp add: weather_of_def get2_nullish sbind_def)
  have clouds: "reads_nullish data (str ''clouds'') \<Longrightarrow> ?thesis"
    by (auto simp: weather_of_def get2_nullish sbind_def js_error_TypeError
          split: sum.splits)
  have wind: "reads_nullish data (str ''wind'') \<Longrightarrow> ?thesis"
    by (auto simp: weather_of_def get2_nullish sbind_def js_error_TypeError
          split: sum.splits)
  have weather: "reads_nullish data (str ''weather'') \<Longrightarrow> ?thesis"
    by (auto simp: weather_of_def get2_nullish sbind_def js_error_TypeError
          split: sum.splits)
  have w0: "(case get data (str ''weather'') of Inl e \<Rightarrow> True
             | Inr w \<Rightarrow> reads_nullish w (str ''0'')) \<Longrightarrow> ?thesis"
    using get_weather0_nullish [of data "str ''description''"]
    by (auto simp: weather_of_def sbind_def js_error_TypeError split: sum.splits)
  from assms main clouds wind weather w0 show ?thesis
    unfolding payload_lacks_section_def by blast
qed

text \<open>A body that has all the sections replaces the snapshot, whatever the sections hold.\<close>

lemma weather_of_succeeds:
  assumes "\<not> payload_lacks_section data"
  shows "\<exists>t hu c d w. weather_of now data =
    Inr [(str ''temp'', t), (str ''humidity'', hu), (str ''clouds'', c),
         (str ''description'', d), (str ''windSpeed'', w), (str ''timestamp'', Num (real now))]"
proof -
  have ok: "\<exists>x. get v k = Inr x" if "\<not> nullish v" for v k
    using that by (cases v) (simp_all add: nullish_def)
  from assms obtain m where m: "get data (str ''main'') = Inr m" "\<not> nullish m"
    by (auto simp: payload_lacks_section_def reads_nullish_def split: sum.splits)
  from assms obtain cl where cl: "get data (str ''clouds'') = Inr cl" "\<not> nullish cl"
    by (auto simp: payload_lacks_section_def reads_nullish_def split: sum.splits)
  from assms obtain wi where wi: "get data (str ''wind'') = Inr wi" "\<not> nullish wi"
    by (auto simp: payload_lacks_section_def reads_nullish_def split: sum.splits)
  from assms obtain we where we: "get data (str ''weather'') = Inr we" "\<not> nullish we"
    by (auto simp: payload_lacks_section_def reads_nullish_def split: sum.splits)
  from assms we obtain w0 where w0: "get we (str ''0'') = Inr w0" "\<not> nullish w0"
    by (auto simp: payload_lacks_section_def reads_nullish_def split: sum.splits)
  from ok [OF m(2)] obtain t where t: "get m (str ''temp'') = Inr t" by blast
  from ok [OF m(2)] obtain hu where hu: "get m (str ''humidity'') = Inr hu" by blast
  from ok [OF cl(2)] obtain c where c: "get cl (str ''all'') = Inr c" by blast
  from ok [OF w0(2)] obtain d where d: "get w0 (str ''description'') = Inr d" by blast
  from ok [OF wi(2)] obtain w where w: "get wi (str ''speed'') = Inr w" by blast
  show ?thesis
    by (simp add: weather_of_def get2_def sbind_def m cl wi we w0 t hu c d w)
qed

lemma fetchWeather_failure:
  assumes "fetch_fails res"
  shows "fetchWeather store_ok now res st = st\<lparr>console := console st @ [LogWeatherFailed]\<rparr>"
proof (cases res)
  case NetworkFailure
  then show ?thesis by (simp add: fetchWeather_def)
next
  case (HttpResponse status data)
  show ?thesis
  proof (cases "200 \<le> status \<and> status < 300")
    case True
    with assms HttpResponse have "payload_lacks_section data"
      by (auto simp: fetch_fails_def)
    then have "weather_of now data = Inl TypeError"
      by (rule weather_of_fails)
    with True HttpResponse show ?thesis
      by (simp add: fetchWeather_def)
  next
    case False
    with HttpResponse show ?thesis
      by (auto simp: fetchWeather_def)
  qed
qed

text \<open>
  A response with a success status and a body that has all the sections, whose
  snapshot the store refuses: \<^verbatim>\<open>set\<close> throws after line 125 has assigned \<open>weatherCache\<close>,
  and the \<^verbatim>\<open>catch\<close> block logs the failure.
\<close>

lemma fetchWeather_refused:
  assumes "200 \<le> status" and "status < 300"
    and "weather_of now data = Inr w"
    and "\<not> store_ok (str ''solarData/weather'') (ObjectValue w)"
  shows "fetchWeather store_ok now (HttpResponse status data) st
    = st\<lparr>weatherCache := w, console := console st @ [LogWeatherFailed]\<rparr>"
  using assms by (simp add: fetchWeather_def)

lemma fetchWeather_stored:
  assumes "200 \<le> status" and "status < 300"
    and "weather_of now data = Inr w"
    and "store_ok (str ''solarData/weather'') (ObjectValue w)"
  shows "fetchWeather store_ok now (HttpResponse status data) st
    = st\<lparr>weatherCache := w, db_weather := Some w,
         console := console st @ [LogWeatherUpdated w]\<rparr>"
  using assms by (simp add: fetchWeather_def)

text \<open>The store refuses a snapshot with a value that is \<open>undefined\<close>.\<close>

lemma valid_members_defined:
  "valid_members kvs \<Longrightarrow> (k, v) \<in> set kvs \<Longrightarrow> v \<noteq> Undefined"
  by (induction kvs) auto

lemma firebase_refuses_undefined:
  "(k, Undefined) \<in> set w \<Longrightarrow> \<not> firebase_accepts path (ObjectValue w)"
  using valid_members_defined [of w k Undefined] by auto

text \<open>
  The snapshot survives the failures of the network, of the status and of a missing
  section: the \<^verbatim>\<open>catch\<close> block logs the failure and nothing else changes, so
  \<^verbatim>\<open>GET /api/weather\<close> answers with the snapshot stored before.
\<close>

lemma failed_fetch_keeps_snapshot:
  assumes "fetch_fails res"
  shows "fetchWeather store_ok now res st = st\<lparr>console := console st @ [LogWeatherFailed]\<rparr>
    \<and> weatherCache (fetchWeather store_ok now res st) = weatherCache st
    \<and> db_weather (fetchWeather store_ok now res st) = db_weather st
    \<and> api_weather (fetchWeather store_ok now res st) = api_weather st"
  using fetchWeather_failure [OF assms, of store_ok now st] by (simp add: api_weather_def)

lemma failed_fetch_examples:
  "api_weather (fetchWeather firebase_accepts 1708612950000
        (HttpResponse 401 (Obj [(str ''cod'', Num 401)]))
        ((initial_state 1708612340000)\<lparr>weatherCache := example_snapshot\<rparr>))
      = ApiOk example_snapshot
   \<and> api_weather (fetchWeather firebase_accepts 1708612950000
        (HttpResponse 200 (Str (str ''Bad Gateway'')))
        ((initial_state 1708612340000)\<lparr>weatherCache := example_snapshot\<rparr>))
      = ApiOk example_snapshot
   \<and> api_weather (fetchWeather firebase_accepts 1708612950000 NetworkFailure
        ((initial_state 1708612340000)\<lparr>weatherCache := example_snapshot\<rparr>))
      = ApiOk example_snapshot"
proof -
  have a: "fetch_fails (HttpResponse 401 (Obj [(str ''cod'', Num 401)]))"
    by (simp add: fetch_fails_def)
  have b: "fetch_fails (HttpResponse 200 (Str (str ''Bad Gateway'')))"
    by (simp add: fetch_fails_def payload_lacks_section_def reads_nullish_def nullish_def
          get_indexed_def array_index_def is_digit_def str_def)
  have c: "fetch_fails NetworkFailure"
    by (simp add: fetch_fails_def)
  show ?thesis
    by (simp add: fetchWeather_failure [OF a] fetchWeather_failure [OF b]
          fetchWeather_failure [OF c] api_weather_def)
qed

text \<open>
  C6: the code loses the snapshot on a fetch that it reports as failed. A response
  with a success status and a body that has the sections \<open>main\<close>, \<open>clouds\<close>, \<open>wind\<close> and
  \<open>weather\<close> gives a snapshot \<open>w\<close>, whatever the sections hold. Line 125 assigns it to
  \<open>weatherCache\<close> before line 134 writes it; when the store refuses it (as it refuses a
  value that is \<open>undefined\<close>) the write throws, the \<^verbatim>\<open>catch\<close> block logs
  \<open>Weather fetch failed\<close>, the database keeps the old snapshot, and
  \<^verbatim>\<open>GET /api/weather\<close> answers with \<open>w\<close>: the snapshot stored before is gone. The
  function still returns normally.
\<close>

theorem refused_snapshot_replaces_cache:
  assumes "200 \<le> status" and "status < 300"
    and "weather_of now data = Inr w"
    and "\<not> store_ok (str ''solarData/weather'') (ObjectValue w)"
  shows "fetchWeather store_ok now (HttpResponse status data) st
      = st\<lparr>weatherCache := w, console := console st @ [LogWeatherFailed]\<rparr>
    \<and> console (fetchWeather store_ok now (HttpResponse status data) st)
      = console st @ [LogWeatherFailed]
    \<and> db_weather (fetchWeather store_ok now (HttpResponse status data) st) = db_weather st
    \<and> api_weather (fetchWeather store_ok now (HttpResponse status data) st) = ApiOk w"
  using fetchWeather_refused [where store_ok = store_ok and st = st, OF assms]
  by (simp add: api_weather_def)

theorem refused_snapshot_replaces_cache_witness:
  "(200 :: nat) \<le> 200 \<and> (200 :: nat) < 300
   \<and> weather_of 1708612950000 payload_without_temperature
     = Inr [(str ''temp'', Undefined), (str ''humidity'', Undefined), (str ''clouds'', Num 90),
            (str ''description'', Str (str ''overcast clouds'')), (str ''windSpeed'', Num 4.1),
            (str ''timestamp'', Num 1708612950000)]
   \<and> \<not> firebase_accepts (str ''solarData/weather'')
       (ObjectValue
          [(str ''temp'', Undefined), (str ''humidity'', Undefined), (str ''clouds'', Num 90),
           (str ''description'', Str (str ''overcast clouds'')), (str ''windSpeed'', Num 4.1),
           (str ''timestamp'', Num 1708612950000)])
   \<and> console (fetchWeather firebase_accepts 1708612950000
        (HttpResponse 200 payload_without_temperature)
        ((initial_state 1708612340000)
           \<lparr>weatherCache := example_snapshot, db_weather := Some example_snapshot\<rparr>))
     = [LogWeatherFailed]
   \<and> db_weather (fetchWeather firebase_accepts 1708612950000
        (HttpResponse 200 payload_without_temperature)
        ((initial_state 1708612340000)
           \<lparr>weatherCache := example_snapshot, db_weather := Some example_snapshot\<rparr>))
     = Some example_snapshot
   \<and> api_weather (fetchWeather firebase_accepts 1708612950000
        (HttpResponse 200 payload_without_temperature)
        ((initial_state 1708612340000)
           \<lparr>weatherCache := example_snapshot, db_weather := Some example_snapshot\<rparr>))
     = ApiOk [(str ''temp'', Undefined), (str ''humidity'', Undefined), (str ''clouds'', Num 90),
              (str ''description'', Str (str ''overcast clouds'')), (str ''windSpeed'', Num 4.1),
              (str ''timestamp'', Num 1708612950000)]
   \<and> api_weather (fetchWeather firebase_accepts 1708612950000
        (HttpResponse 200 payload_without_temperature)
        ((initial_state 1708612340000)
           \<lparr>weatherCache := example_snapshot, db_weather := Some example_snapshot\<rparr>))
     \<noteq> api_weather ((initial_state 1708612340000)
           \<lparr>weatherCache := example_snapshot, db_weather := Some example_snapshot\<rparr>)"
proof -
  define w where "w =
    [(str ''temp'', Undefined), (str ''humidity'', Undefined), (str ''clouds'', Num 90),
     (str ''description'', Str (str ''overcast clouds'')), (str ''windSpeed'', Num 4.1),
     (str ''timestamp'', Num 1708612950000)]"
  define st0 where "st0 = (initial_state 1708612340000)
     \<lparr>weatherCache := example_snapshot, db_weather := Some example_snapshot\<rparr>"
  have a: "(200 :: nat) \<le> 200" and b: "(200 :: nat) < 300"
    by simp_all
  have c: "weather_of 1708612950000 payload_without_temperature = Inr w"
    by (simp add: w_def weather_of_def get2_def sbind_def payload_without_temperature_def
          get_indexed_def array_index_def is_digit_def digits_val_def str_def)
  have d: "\<not> firebase_accepts (str ''solarData/weather'') (ObjectValue w)"
    by (simp add: w_def)
  have e: "console st0 = []" "db_weather st0 = Some example_snapshot"
    "api_weather st0 = ApiOk example_snapshot"
    by (simp_all add: st0_def initial_state_def api_weather_def)
  have f: "w \<noteq> example_snapshot"
    by (simp add: w_def example_snapshot_def)
  note t = refused_snapshot_replaces_cache
    [where store_ok = firebase_accepts and st = st0, OF a b c d]
  from t e have r1: "console (fetchWeather firebase_accepts 1708612950000
      (HttpResponse 200 payload_without_temperature) st0) = [LogWeatherFailed]"
    by simp
  from t e have r2: "db_weather (fetchWeather firebase_accepts 1708612950000
      (HttpResponse 200 payload_without_temperature) st0) = Some example_snapshot"
    by simp
  from t have r3: "api_weather (fetchWeather firebase_accepts 1708612950000
      (HttpResponse 200 payload_without_temperature) st0) = ApiOk w"
    by blast
  from r3 e f have r4: "api_weather (fetchWeather firebase_accepts 1708612950000
      (HttpResponse 200 payload_without_temperature) st0) \<noteq> api_weather st0"
    by simp
  from a b c d r1 r2 r3 r4 show ?thesis
    unfolding w_def st0_def by blast
qed

section \<open>Rounding to binary64\<close>

text \<open>
  \<open>exponent2 x\<close> is the exponent of \<open>x\<close>: \<open>2 ^ exponent2 x \<le> x < 2 ^ (exponent2 x + 1)\<close>.
\<close>

lemma bit_length_bounds:
  "0 < n \<Longrightarrow> 2 ^ (bit_length n - 1) \<le> n \<and> n < 2 ^ bit_length n"
proof (induction n rule: bit_length.induct)
  case (1 n)
  show ?case
  proof (cases "n div 2 = 0")
    case True
    with 1(2) have "n = 1" by (simp add: div_eq_0_iff)
    then show ?thesis by (simp add: bit_length.simps)
  next
    case False
    then have pos: "0 < n div 2" by simp
    from 1(2) have n0: "n \<noteq> 0" by simp
    from 1(1) [OF n0 pos] have ih: "2 ^ (bit_length (n div 2) - 1) \<le> n div 2"
      "n div 2 < 2 ^ bit_length (n div 2)" by auto
    have bl: "bit_length n = Suc (bit_length (n div 2))"
      using n0 by (simp add: bit_length.simps [of n])
    have blpos: "0 < bit_length (n div 2)"
      using pos by (simp add: bit_length.simps [of "n div 2"])
    then obtain k where k: "bit_length (n div 2) = Suc k"
      by (cases "bit_length (n div 2)") auto
    from ih k have "2 ^ k \<le> n div 2" "n div 2 < 2 ^ Suc k" by auto
    then have "2 * 2 ^ k \<le> n" "n < 2 * 2 ^ Suc k" by auto
    then show ?thesis using bl k by simp
  qed
qed

lemma pow2_powi: "pow2 k = 2 powi k"
  unfolding pow2_def power_int_def by (simp add: power_one_over)

lemma pow2_pos: "0 < pow2 k"
  by (simp add: pow2_powi)

lemma pow2_add: "pow2 (a + b) = pow2 a * pow2 b"
  by (simp add: pow2_powi power_int_add)

lemma pow2_mono: "a \<le> b \<Longrightarrow> pow2 a \<le> pow2 b"
  by (simp add: pow2_powi power_int_increasing)

lemma pow2_nat: "pow2 (int n) = 2 ^ n"
  by (simp add: pow2_def)

lemma pow2_neg_nat: "pow2 (- int n) = 1 / 2 ^ n"
  by (simp add: pow2_powi power_int_minus inverse_eq_divide)

lemma exponent2_bounds:
  assumes "0 < x"
  shows "pow2 (exponent2 x) \<le> x \<and> x < pow2 (exponent2 x + 1)"
proof (cases "1 \<le> x")
  case True
  define n where "n = nat \<lfloor>x\<rfloor>"
  have n1: "0 < n" using True by (simp add: n_def)
  have nx: "real n \<le> x" "x < real n + 1"
    using True by (simp_all add: n_def)
  from bit_length_bounds [OF n1] have b: "2 ^ (bit_length n - 1) \<le> n" "n < 2 ^ bit_length n"
    by auto
  have blpos: "0 < bit_length n" using n1 by (simp add: bit_length.simps [of n])
  have e: "exponent2 x = int (bit_length n - 1)"
    using True blpos by (simp add: exponent2_def n_def)
  have e1: "exponent2 x + 1 = int (bit_length n)"
    using e blpos by simp
  have "real (2 ^ (bit_length n - 1)) \<le> real n"
    using b(1) of_nat_le_iff by blast
  then have "(2 :: real) ^ (bit_length n - 1) \<le> real n"
    by simp
  then have "(2 :: real) ^ (bit_length n - 1) \<le> x"
    using nx(1) by linarith
  then have l: "pow2 (exponent2 x) \<le> x"
    by (simp only: e pow2_nat)
  have "n + 1 \<le> 2 ^ bit_length n" using b(2) by simp
  then have "real (n + 1) \<le> real (2 ^ bit_length n)"
    using of_nat_le_iff by blast
  then have "real n + 1 \<le> (2 :: real) ^ bit_length n"
    by simp
  then have "x < (2 :: real) ^ bit_length n"
    using nx(2) by linarith
  then have u: "x < pow2 (exponent2 x + 1)"
    by (simp only: e1 pow2_nat)
  from l u show ?thesis by simp
next
  case False
  then have x1: "x < 1" by simp
  define m where "m = nat (\<lceil>1 / x\<rceil> - 1)"
  have inv: "1 < 1 / x" using assms x1 by simp
  then have c2: "2 \<le> \<lceil>1 / x\<rceil>" by linarith
  then have m1: "0 < m" by (simp add: m_def)
  have mx: "real m < 1 / x" "1 / x \<le> real m + 1"
    using c2 by (simp_all add: m_def) linarith+
  from bit_length_bounds [OF m1] have b: "2 ^ (bit_length m - 1) \<le> m" "m < 2 ^ bit_length m"
    by auto
  have blpos: "0 < bit_length m" using m1 by (simp add: bit_length.simps [of m])
  have e: "exponent2 x = - int (bit_length m)"
    using False by (simp add: exponent2_def m_def)
  have e1: "exponent2 x + 1 = - int (bit_length m - 1)"
    using e blpos by simp
  have "m + 1 \<le> 2 ^ bit_length m" using b(2) by simp
  then have "real (m + 1) \<le> real (2 ^ bit_length m)"
    using of_nat_le_iff by blast
  then have "real m + 1 \<le> (2 :: real) ^ bit_length m"
    by simp
  then have "1 / x \<le> 2 ^ bit_length m"
    using mx(2) by linarith
  then have "1 \<le> 2 ^ bit_length m * x"
    using assms by (simp add: field_simps)
  then have "1 / 2 ^ bit_length m \<le> x"
    by (simp add: field_simps)
  then have l: "pow2 (exponent2 x) \<le> x"
    by (simp only: e pow2_neg_nat)
  have "real (2 ^ (bit_length m - 1)) \<le> real m"
    using b(1) of_nat_le_iff by blast
  then have "(2 :: real) ^ (bit_length m - 1) \<le> real m"
    by simp
  then have "2 ^ (bit_length m - 1) < 1 / x"
    using mx(1) by linarith
  then have "2 ^ (bit_length m - 1) * x < 1"
    using assms by (simp add: field_simps)
  then have "x < 1 / 2 ^ (bit_length m - 1)"
    by (simp add: field_simps)
  then have u: "x < pow2 (exponent2 x + 1)"
    by (simp only: e1 pow2_neg_nat)
  from l u show ?thesis by simp
qed

lemma exponent2_mono:
  assumes "0 < x" and "x \<le> y"
  shows "exponent2 x \<le> exponent2 y"
proof (rule ccontr)
  assume "\<not> exponent2 x \<le> exponent2 y"
  then have "exponent2 y + 1 \<le> exponent2 x" by simp
  then have "pow2 (exponent2 y + 1) \<le> pow2 (exponent2 x)" by (rule pow2_mono)
  moreover have "pow2 (exponent2 x) \<le> x" using exponent2_bounds [OF assms(1)] by simp
  moreover have "y < pow2 (exponent2 y + 1)" using exponent2_bounds [of y] assms by simp
  ultimately show False using assms(2) by simp
qed

lemma round_even_bounds: "of_int (round_even y) - 1 / 2 \<le> y \<and> y \<le> of_int (round_even y) + 1 / 2"
  unfolding round_even_def Let_def by (auto; linarith)

lemma round_even_of_int: "round_even (of_int k) = k"
  by (simp add: round_even_def)

lemma round_even_mono:
  assumes "x \<le> y"
  shows "round_even x \<le> round_even y"
proof (cases "\<lfloor>x\<rfloor> = \<lfloor>y\<rfloor>")
  case True
  then show ?thesis
    using assms unfolding round_even_def Let_def by auto
next
  case False
  then have "\<lfloor>x\<rfloor> + 1 \<le> \<lfloor>y\<rfloor>"
    using assms floor_mono [OF assms] by simp
  moreover have "round_even x \<le> \<lfloor>x\<rfloor> + 1"
    unfolding round_even_def Let_def by auto
  moreover have "\<lfloor>y\<rfloor> \<le> round_even y"
    unfolding round_even_def Let_def by auto
  ultimately show ?thesis by simp
qed

lemma round_even_le: "y \<le> of_int k \<Longrightarrow> round_even y \<le> k"
  using round_even_mono [of y "of_int k"] by (simp add: round_even_of_int)

lemma round_even_ge: "of_int k \<le> y \<Longrightarrow> k \<le> round_even y"
  using round_even_mono [of "of_int k" y] by (simp add: round_even_of_int)


lemma binary64_pos:
  assumes "0 < x"
  shows "binary64 x =
    of_int (round_even (x / pow2 (max (exponent2 x) (- 1022) - 52)))
      * pow2 (max (exponent2 x) (- 1022) - 52)"
  using assms by (simp add: binary64_def Let_def)

lemma binary64_nonneg:
  assumes "0 \<le> x"
  shows "0 \<le> binary64 x"
proof (cases "x = 0")
  case True
  then show ?thesis by (simp add: binary64_def)
next
  case False
  with assms have pos: "0 < x" by simp
  define q where "q = pow2 (max (exponent2 x) (- 1022) - 52)"
  have q: "0 < q" by (simp add: q_def pow2_pos)
  have "of_int 0 \<le> x / q" using pos q by simp
  then have "0 \<le> round_even (x / q)" by (rule round_even_ge)
  then show ?thesis
    using q binary64_pos [OF pos] by (simp add: q_def)
qed

lemma pow2_53: "pow2 (e + 1) = 2 ^ 53 * pow2 (e - 52)"
proof -
  have "e + 1 = 53 + (e - 52)" by simp
  then have "pow2 (e + 1) = pow2 53 * pow2 (e - 52)"
    by (simp only: pow2_add)
  then show ?thesis by (simp add: pow2_def)
qed

lemma pow2_52: "pow2 e = 2 ^ 52 * pow2 (e - 52)"
proof -
  have "e = 52 + (e - 52)" by simp
  then have "pow2 e = pow2 52 * pow2 (e - 52)"
    by (metis pow2_add)
  then show ?thesis by (simp add: pow2_def)
qed

lemma binary64_upper:
  assumes "0 < x"
  shows "binary64 x \<le> pow2 (max (exponent2 x) (- 1022) + 1)"
proof -
  define e where "e = max (exponent2 x) (- 1022)"
  define q where "q = pow2 (e - 52)"
  have q: "0 < q" by (simp add: q_def pow2_pos)
  have "x < pow2 (exponent2 x + 1)" using exponent2_bounds [OF assms] by simp
  also have "\<dots> \<le> pow2 (e + 1)" by (rule pow2_mono) (simp add: e_def)
  also have "\<dots> = 2 ^ 53 * q" by (simp only: pow2_53 q_def)
  finally have "x / q \<le> 2 ^ 53" using q by (simp add: field_simps)
  then have "x / q \<le> of_int (2 ^ 53)" by simp
  then have "round_even (x / q) \<le> 2 ^ 53" by (rule round_even_le)
  then have "real_of_int (round_even (x / q)) \<le> 2 ^ 53"
    by (metis of_int_le_iff of_int_numeral of_int_power)
  then have "of_int (round_even (x / q)) * q \<le> 2 ^ 53 * q"
    using q by (simp only: mult_le_cancel_right_pos)
  moreover have "binary64 x = of_int (round_even (x / q)) * q"
    using binary64_pos [OF assms] by (simp add: q_def e_def)
  moreover have "pow2 (e + 1) = 2 ^ 53 * q"
    by (simp only: pow2_53 q_def)
  ultimately have "binary64 x \<le> pow2 (e + 1)"
    by simp
  then show ?thesis
    by (simp add: e_def)
qed

lemma binary64_lower:
  assumes "0 < x" and "- 1022 \<le> exponent2 x"
  shows "pow2 (exponent2 x) \<le> binary64 x"
proof -
  define e where "e = exponent2 x"
  define q where "q = pow2 (e - 52)"
  have q: "0 < q" by (simp add: q_def pow2_pos)
  have m: "max (exponent2 x) (- 1022) = e" using assms(2) by (simp add: e_def)
  have "2 ^ 52 * q = pow2 e" by (simp only: pow2_52 [of e] q_def)
  also have "\<dots> \<le> x" using exponent2_bounds [OF assms(1)] by (simp add: e_def)
  finally have "2 ^ 52 \<le> x / q" using q by (simp add: field_simps)
  then have "of_int (2 ^ 52) \<le> x / q" by simp
  then have "2 ^ 52 \<le> round_even (x / q)" by (rule round_even_ge)
  then have "2 ^ 52 \<le> real_of_int (round_even (x / q))"
    by (metis of_int_le_iff of_int_numeral of_int_power)
  then have "2 ^ 52 * q \<le> of_int (round_even (x / q)) * q"
    using q by (simp only: mult_le_cancel_right_pos)
  moreover have "binary64 x = of_int (round_even (x / q)) * q"
    using binary64_pos [OF assms(1)] m by (simp add: q_def e_def)
  moreover have "pow2 e = 2 ^ 52 * q"
    by (simp only: pow2_52 [of e] q_def)
  ultimately have "pow2 e \<le> binary64 x"
    by simp
  then show ?thesis
    by (simp add: e_def)
qed

text \<open>The rounding is within half a unit in the last place.\<close>

lemma binary64_error:
  assumes "x \<noteq> 0"
  shows "\<bar>binary64 x - x\<bar> \<le> pow2 (max (exponent2 \<bar>x\<bar>) (- 1022) - 52) / 2"
proof -
  define q where "q = pow2 (max (exponent2 \<bar>x\<bar>) (- 1022) - 52)"
  have q: "0 < q" by (simp add: q_def pow2_pos)
  have b: "binary64 x = of_int (round_even (x / q)) * q"
    using assms by (simp add: binary64_def Let_def q_def)
  have "binary64 x - x = (of_int (round_even (x / q)) - x / q) * q"
    using q by (simp add: b field_simps)
  moreover have "\<bar>of_int (round_even (x / q)) - x / q\<bar> \<le> 1 / 2"
    using round_even_bounds [of "x / q"] by linarith
  ultimately have "\<bar>binary64 x - x\<bar> \<le> 1 / 2 * q"
    using q by (simp add: abs_mult mult_right_mono)
  then show ?thesis
    by (simp add: q_def)
qed

text \<open>Rounding keeps the order of numbers that are not negative.\<close>

lemma binary64_mono:
  assumes "0 \<le> x" and "x \<le> y"
  shows "binary64 x \<le> binary64 y"
proof (cases "x = 0")
  case True
  then show ?thesis
    using binary64_nonneg [of y] assms by (simp add: binary64_def)
next
  case False
  with assms have px: "0 < x" and py: "0 < y" by simp_all
  define ex where "ex = max (exponent2 x) (- 1022)"
  define ey where "ey = max (exponent2 y) (- 1022)"
  have le: "ex \<le> ey"
    using exponent2_mono [OF px assms(2)] by (simp add: ex_def ey_def)
  show ?thesis
  proof (cases "ex = ey")
    case True
    define q where "q = pow2 (ex - 52)"
    have q: "0 < q" by (simp add: q_def pow2_pos)
    have "x / q \<le> y / q" using assms(2) q by (simp add: divide_right_mono)
    then have "round_even (x / q) \<le> round_even (y / q)" by (rule round_even_mono)
    then have "real_of_int (round_even (x / q)) * q \<le> real_of_int (round_even (y / q)) * q"
      using q by simp
    then show ?thesis
      using binary64_pos [OF px] binary64_pos [OF py] True
      by (simp add: q_def ex_def ey_def)
  next
    case False
    with le have lt: "ex + 1 \<le> ey" by simp
    then have "- 1022 < ey" by (simp add: ex_def)
    then have eyy: "ey = exponent2 y" and ny: "- 1022 \<le> exponent2 y"
      by (simp_all add: ey_def)
    have "binary64 x \<le> pow2 (ex + 1)"
      using binary64_upper [OF px] by (simp add: ex_def)
    also have "\<dots> \<le> pow2 ey" using lt by (rule pow2_mono)
    also have "\<dots> \<le> binary64 y"
      using binary64_lower [OF py ny] by (simp add: eyy)
    finally show ?thesis .
  qed
qed

text \<open>A natural number below \<open>2^53\<close> is a binary64.\<close>

lemma binary64_nat_exact:
  assumes "n < 2 ^ 53"
  shows "binary64 (real n) = real n"
proof (cases "n = 0")
  case True
  then show ?thesis by (simp add: binary64_def)
next
  case False
  then have pos: "0 < real n" and one: "1 \<le> real n" by simp_all
  define e where "e = exponent2 (real n)"
  have b: "pow2 e \<le> real n" "real n < pow2 (e + 1)"
    using exponent2_bounds [OF pos] by (simp_all add: e_def)
  have e0: "0 \<le> e"
  proof (rule ccontr)
    assume "\<not> 0 \<le> e"
    then have "e + 1 \<le> 0" by simp
    then have "pow2 (e + 1) \<le> pow2 0" by (rule pow2_mono)
    then show False using b(2) one by (simp add: pow2_def)
  qed
  have "real n < real (2 ^ 53)" using assms of_nat_less_iff by blast
  then have n53: "real n < 2 ^ 53" by simp
  have e52: "e \<le> 52"
  proof (rule ccontr)
    assume "\<not> e \<le> 52"
    then have "53 \<le> e" by simp
    then have "pow2 53 \<le> pow2 e" by (rule pow2_mono)
    then show False using b(1) n53 by (simp add: pow2_def)
  qed
  define j where "j = nat (52 - e)"
  have ej: "e - 52 = - int j" using e52 by (simp add: j_def)
  have q: "pow2 (e - 52) = 1 / 2 ^ j" by (simp only: ej pow2_neg_nat)
  have m: "max e (- 1022) = e" using e0 by simp
  have "real n / (1 / 2 ^ j) = of_int (int n * 2 ^ j)" by simp
  then have "round_even (real n / (1 / 2 ^ j)) = int n * 2 ^ j"
    by (simp only: round_even_of_int)
  then have "of_int (round_even (real n / (1 / 2 ^ j))) * (1 / 2 ^ j) = real n"
    by simp
  moreover have "binary64 (real n)
      = of_int (round_even (real n / pow2 (e - 52))) * pow2 (e - 52)"
    using binary64_pos [OF pos] m by (simp add: e_def)
  ultimately show ?thesis
    by (simp only: q)
qed

lemmas binary64_eval =
  binary64_def exponent2_def pow2_def round_even_def bit_length.simps Let_def

lemma binary64_0: "binary64 0 = 0"
  by (simp add: binary64_def)

lemma binary64_1: "binary64 1 = 1"
  using binary64_nat_exact [of 1] by simp

lemma binary64_10: "binary64 10 = 10"
  using binary64_nat_exact [of 10] by simp

lemma binary64_90: "binary64 90 = 90"
  using binary64_nat_exact [of 90] by simp

lemma binary64_100: "binary64 100 = 100"
  using binary64_nat_exact [of 100] by simp

text \<open>The literals \<open>0.7\<close> and \<open>1.1\<close> as the runtime holds them.\<close>

lemma binary64_seven_tenths:
  "binary64 (7 / 10) = 3152519739159347 / 4503599627370496"
  by (simp add: binary64_eval)

lemma binary64_eleven_tenths:
  "binary64 (11 / 10) = 2476979795053773 / 2251799813685248"
  by (simp add: binary64_eval)

text \<open>
  The cloud factor and the confidence in binary64 arithmetic, for a cloud cover
  between 0 and 100.
\<close>

lemma cloud_factor_binary64_bounds:
  assumes "0 \<le> c" and "c \<le> 100"
  shows "1351079888211149 / 4503599627370496 \<le> cloud_factor binary64 (binary64 c)
    \<and> cloud_factor binary64 (binary64 c) \<le> 1"
proof -
  define S :: real where "S = 3152519739159347 / 4503599627370496"
  have s: "binary64 0.7 = S"
    using binary64_seven_tenths by (simp add: S_def)
  have c1: "0 \<le> binary64 c" "binary64 c \<le> 100"
    using binary64_nonneg [OF assms(1)] binary64_mono [OF assms] by (simp_all add: binary64_100)
  define d where "d = binary64 (binary64 c / 100)"
  have d0: "0 \<le> d" unfolding d_def using c1(1) by (intro binary64_nonneg) simp
  have "binary64 (binary64 c / 100) \<le> binary64 1"
    using c1 by (intro binary64_mono) simp_all
  then have d1: "d \<le> 1" by (simp add: d_def binary64_1)
  define p where "p = binary64 (d * S)"
  have S0: "0 \<le> S" by (simp add: S_def)
  have p0: "0 \<le> p" unfolding p_def using d0 S0 by (intro binary64_nonneg) simp
  have "d * S \<le> 1 * S" using d1 S0 by (intro mult_right_mono)
  then have "binary64 (d * S) \<le> binary64 S"
    using d0 S0 by (intro binary64_mono) simp_all
  moreover have "binary64 S = S"
    unfolding S_def by (simp add: binary64_eval)
  ultimately have p1: "p \<le> S" by (simp add: p_def)
  have "binary64 (1 - S) \<le> binary64 (1 - p)"
    using p1 by (intro binary64_mono) (simp_all add: S_def)
  moreover have "binary64 (1 - S) = 1351079888211149 / 4503599627370496"
    unfolding S_def by (simp add: binary64_eval)
  ultimately have l: "1351079888211149 / 4503599627370496 \<le> binary64 (1 - p)" by simp
  have "binary64 (1 - p) \<le> binary64 1"
    using p0 p1 by (intro binary64_mono) (simp_all add: S_def)
  then have u: "binary64 (1 - p) \<le> 1" by (simp add: binary64_1)
  have "cloud_factor binary64 (binary64 c) = binary64 (1 - p)"
    by (simp add: cloud_factor_def p_def d_def s)
  with l u show ?thesis by simp
qed

lemma confidence_binary64_bounds:
  assumes "0 \<le> c" and "c \<le> 100"
  shows "27 \<le> confidence_rounded binary64 (binary64 c)
    \<and> confidence_rounded binary64 (binary64 c) \<le> 90"
proof -
  define f where "f = cloud_factor binary64 (binary64 c)"
  define V :: real where "V = 1351079888211149 / 4503599627370496"
  have f: "V \<le> f" "f \<le> 1"
    using cloud_factor_binary64_bounds [OF assms] by (simp_all add: f_def V_def)
  have V0: "0 \<le> V" by (simp add: V_def)
  have "binary64 (V * 90) \<le> binary64 (f * 90)"
    using f V0 by (intro binary64_mono) simp_all
  moreover have "27 \<le> binary64 (V * 90)"
    unfolding V_def by (simp add: binary64_eval)
  ultimately have l: "27 \<le> binary64 (f * 90)" by simp
  have "binary64 (f * 90) \<le> binary64 90"
    using f V0 by (intro binary64_mono) simp_all
  then have u: "binary64 (f * 90) \<le> 90" by (simp add: binary64_90)
  have "27 \<le> \<lfloor>binary64 (f * 90) + 1 / 2\<rfloor>" using l by linarith
  moreover have "\<lfloor>binary64 (f * 90) + 1 / 2\<rfloor> \<le> 90" using u by linarith
  ultimately show ?thesis by (simp add: confidence_rounded_def f_def)
qed

section \<open>The prediction\<close>

lemma js_or_Num0: "js_or (Num c) (Num 0) = Num c"
  by (simp add: js_or_def)

lemma cloudFactor_Num:
  "lookup (weatherCache st) (str ''clouds'') = Num c \<Longrightarrow>
   cloudFactor rnd tn st = Some (cloud_factor rnd (rnd c))"
  by (simp add: cloudFactor_def cloud_factor_def operand_def js_or_Num0 js_sub_def js_mul_def
        js_div100_def)

lemma basePower_Num:
  "lookup (latestReading st) (str ''power'') = Num b \<Longrightarrow> basePower st = Num b"
  by (simp add: basePower_def js_or_Num0)

lemma length_hourlyFactor: "length hourlyFactor = 24"
  by (simp add: hourlyFactor_def)

lemma hourlyFactor_range: "k < 24 \<Longrightarrow> 0 \<le> hourlyFactor ! k \<and> hourlyFactor ! k \<le> 1"
proof -
  have "list_all (\<lambda>x. 0 \<le> x \<and> x \<le> 1) hourlyFactor"
    by (simp add: hourlyFactor_def)
  then show "k < 24 \<Longrightarrow> 0 \<le> hourlyFactor ! k \<and> hourlyFactor ! k \<le> 1"
    by (simp add: list_all_length length_hourlyFactor)
qed

lemma forecast_nth:
  assumes "1 \<le> i" and "i \<le> 6"
  shows "forecast (predictionCache (runPrediction store_ok rnd tn h now st)) ! (i - 1)
    = forecast_entry_at rnd tn h st i"
proof -
  from assms have "i - 1 < length [1..<7]" by simp
  then have "map (forecast_entry_at rnd tn h st) [1..<7] ! (i - 1)
      = forecast_entry_at rnd tn h st ([1..<7] ! (i - 1))"
    by (rule nth_map)
  also from assms have "[1..<7] ! (i - 1) = i" by simp
  finally show ?thesis
    by (simp add: runPrediction_def Let_def)
qed

text \<open>
  What the function computes from a numeric power and a numeric cloud cover, for any
  rounding and whatever the store answers.
\<close>

lemma forecast_entry_Num:
  assumes "lookup (latestReading st) (str ''power'') = Num b"
    and "lookup (weatherCache st) (str ''clouds'') = Num c"
  shows "forecast_entry_at rnd tn h st i =
    \<lparr> hour = (h + i) mod 24, label = show_nat ((h + i) mod 24) @ str '':00'',
      predicted = Some (max 0 (rnd (round3
        (boosted_product rnd (rnd b) (hourlyFactor ! ((h + i) mod 24)) (rnd c))))) \<rparr>"
  by (simp add: forecast_entry_at_def Let_def cloudFactor_Num [OF assms(2)]
        basePower_Num [OF assms(1)] operand_def js_mul_def Math_max0_def toFixed3_def
        boosted_product_def)

lemma predicted_power_Num:
  assumes "lookup (latestReading st) (str ''power'') = Num b"
    and "lookup (weatherCache st) (str ''clouds'') = Num c"
  shows "predicted_power (predictionCache (runPrediction store_ok rnd tn h now st))
    = Some (max 0 (rnd (round3
        (plain_product rnd (rnd b) (hourlyFactor ! ((h + 1) mod 24)) (rnd c)))))"
  by (simp add: runPrediction_def Let_def cloudFactor_Num [OF assms(2)]
        basePower_Num [OF assms(1)] operand_def js_mul_def Math_max0_def toFixed3_def
        plain_product_def)

lemma confidence_Num:
  assumes "lookup (weatherCache st) (str ''clouds'') = Num c"
  shows "confidence (predictionCache (runPrediction store_ok rnd tn h now st))
    = Some (of_int (confidence_rounded rnd (rnd c)))"
  by (simp add: runPrediction_def Let_def cloudFactor_Num [OF assms] js_mul_def
        Math_round_def confidence_rounded_def)

text \<open>With no rounding the two products and the cloud factor are the formulas as written.\<close>

lemma cloud_factor_exact: "cloud_factor (\<lambda>x. x) c = 1 - (c / 100) * 0.7"
  by (simp add: cloud_factor_def)

lemma boosted_product_exact:
  "boosted_product (\<lambda>x. x) b f c = b * f * (1 - (c / 100) * 0.7) * 1.1"
  by (simp add: boosted_product_def cloud_factor_def)

lemma plain_product_exact:
  "plain_product (\<lambda>x. x) b f c = b * f * (1 - (c / 100) * 0.7)"
  by (simp add: plain_product_def cloud_factor_def)

text \<open>\<open>round3\<close> gives the nearest thousandth, and there is one such.\<close>

lemma round3_nearest:
  "\<exists>n. round3 x = of_int n / 1000 \<and> nearest_thousandth n x \<and> (0 \<le> x \<longrightarrow> 0 \<le> n)"
proof (cases "0 \<le> x")
  case True
  have "of_int \<lfloor>x * 1000 + 1 / 2\<rfloor> - 1 / 2 \<le> x * 1000"
    "x * 1000 < of_int \<lfloor>x * 1000 + 1 / 2\<rfloor> + 1 / 2"
    by linarith+
  moreover have "0 \<le> \<lfloor>x * 1000 + 1 / 2\<rfloor>"
    using True by simp
  ultimately show ?thesis
    using True by (intro exI [of _ "\<lfloor>x * 1000 + 1 / 2\<rfloor>"])
      (simp add: round3_def nearest_thousandth_def)
next
  case False
  have "of_int (- \<lfloor>- x * 1000 + 1 / 2\<rfloor>) - 1 / 2 < x * 1000"
    "x * 1000 \<le> of_int (- \<lfloor>- x * 1000 + 1 / 2\<rfloor>) + 1 / 2"
    by (simp; linarith)+
  then show ?thesis
    using False by (intro exI [of _ "- \<lfloor>- x * 1000 + 1 / 2\<rfloor>"])
      (simp add: round3_def nearest_thousandth_def)
qed

lemma nearest_thousandth_unique:
  assumes "nearest_thousandth n x" and "nearest_thousandth m x"
  shows "n = m"
proof -
  have "real_of_int n - real_of_int m < 1" "real_of_int m - real_of_int n < 1"
    using assms by (auto simp: nearest_thousandth_def split: if_splits)
  then have "n - m < 1" "m - n < 1"
    by linarith+
  then show ?thesis by simp
qed

text \<open>In binary64 arithmetic the two products are not negative.\<close>

lemma products_nonneg:
  assumes "0 \<le> b" and "0 \<le> c" and "c \<le> 100" and "k < 24"
  shows "0 \<le> plain_product binary64 (binary64 b) (hourlyFactor ! k) (binary64 c)
    \<and> 0 \<le> boosted_product binary64 (binary64 b) (hourlyFactor ! k) (binary64 c)"
proof -
  define f where "f = cloud_factor binary64 (binary64 c)"
  have f: "0 \<le> f"
    using cloud_factor_binary64_bounds [OF assms(2) assms(3)] by (simp add: f_def)
  have b: "0 \<le> binary64 b"
    using assms(1) by (rule binary64_nonneg)
  have h: "0 \<le> binary64 (hourlyFactor ! k)"
    using hourlyFactor_range [OF assms(4)] by (intro binary64_nonneg) simp
  have e: "0 \<le> binary64 (11 / 10)"
    by (intro binary64_nonneg) simp
  have p1: "0 \<le> binary64 (binary64 b * binary64 (hourlyFactor ! k))"
    using b h by (intro binary64_nonneg) simp
  have p2: "0 \<le> binary64 (binary64 (binary64 b * binary64 (hourlyFactor ! k)) * f)"
    using p1 f by (intro binary64_nonneg) simp
  have p3: "0 \<le> binary64
      (binary64 (binary64 (binary64 b * binary64 (hourlyFactor ! k)) * f) * binary64 (11 / 10))"
    using p2 e by (intro binary64_nonneg) simp
  from p2 p3 show ?thesis
    by (simp add: plain_product_def boosted_product_def f_def)
qed

text \<open>
  C2. With a reading of power \<open>b \<ge> 0\<close> (up to \<open>10^300\<close>: overflow is not modelled), a
  cloud cover \<open>c\<close> in \<open>[0, 100]\<close> and the hour \<open>h\<close> in \<open>[0, 23]\<close>, the forecast entry for
  offset \<open>i\<close> (1 to 6) is for the hour \<open>(h + i) mod 24\<close> and predicts
  \<open>b * shape[(h + i) mod 24] * cloudFactor * 1.1\<close> with
  \<open>cloudFactor = 1 - (c / 100) * 0.7\<close>, computed in binary64 arithmetic, clamped at zero
  and rounded to three decimals: the value is \<open>n / 1000\<close> (as a binary64) for the integer
  \<open>n\<close> nearest to a thousand times the product, and \<open>n\<close> is not negative. The headline
  \<open>predicted_power\<close> is the same for offset 1 without the factor 1.1. With \<open>b = 10\<close>,
  \<open>c = 0\<close> and \<open>h = 11\<close> the predicted power is 10 and the confidence 90. This holds
  whatever the store answers to the write of the prediction.
\<close>

theorem forecast_formula:
  assumes "lookup (latestReading st) (str ''power'') = Num b" and "0 \<le> b" and "b \<le> 10 ^ 300"
    and "lookup (weatherCache st) (str ''clouds'') = Num c" and "0 \<le> c" and "c \<le> 100"
    and "h < 24" and "1 \<le> i" and "i \<le> 6"
  shows "\<exists>n m :: int.
      hour (forecast (predictionCache (runPrediction store_ok binary64 tn h now st)) ! (i - 1))
        = (h + i) mod 24
    \<and> predicted (forecast (predictionCache (runPrediction store_ok binary64 tn h now st)) ! (i - 1))
        = Some (max 0 (binary64 (of_int n / 1000)))
    \<and> nearest_thousandth n
        (boosted_product binary64 (binary64 b) (hourlyFactor ! ((h + i) mod 24)) (binary64 c))
    \<and> 0 \<le> n
    \<and> predicted_power (predictionCache (runPrediction store_ok binary64 tn h now st))
        = Some (max 0 (binary64 (of_int m / 1000)))
    \<and> nearest_thousandth m
        (plain_product binary64 (binary64 b) (hourlyFactor ! ((h + 1) mod 24)) (binary64 c))
    \<and> 0 \<le> m
    \<and> (b = 10 \<and> c = 0 \<and> h = 11 \<longrightarrow>
          predicted_power (predictionCache (runPrediction store_ok binary64 tn h now st)) = Some 10
          \<and> confidence (predictionCache (runPrediction store_ok binary64 tn h now st)) = Some 90)"
proof -
  let ?run = "runPrediction store_ok binary64 tn h now st"
  let ?bp = "boosted_product binary64 (binary64 b) (hourlyFactor ! ((h + i) mod 24)) (binary64 c)"
  let ?pp = "plain_product binary64 (binary64 b) (hourlyFactor ! ((h + 1) mod 24)) (binary64 c)"
  have nn: "0 \<le> ?bp" "0 \<le> ?pp"
    using products_nonneg [OF assms(2) assms(5) assms(6), of "(h + i) mod 24"]
      products_nonneg [OF assms(2) assms(5) assms(6), of "(h + 1) mod 24"]
    by simp_all
  from round3_nearest [of ?bp] nn(1) obtain n where
    n: "round3 ?bp = of_int n / 1000" "nearest_thousandth n ?bp" "0 \<le> n"
    by blast
  from round3_nearest [of ?pp] nn(2) obtain m where
    m: "round3 ?pp = of_int m / 1000" "nearest_thousandth m ?pp" "0 \<le> m"
    by blast
  have entry: "forecast (predictionCache ?run) ! (i - 1) =
      \<lparr> hour = (h + i) mod 24, label = show_nat ((h + i) mod 24) @ str '':00'',
        predicted = Some (max 0 (binary64 (of_int n / 1000))) \<rparr>"
    using forecast_nth [OF assms(8) assms(9), of store_ok binary64 tn h now st]
      forecast_entry_Num [OF assms(1) assms(4), of binary64 tn h i]
    by (simp only: n(1))
  have pp: "predicted_power (predictionCache ?run) = Some (max 0 (binary64 (of_int m / 1000)))"
    using predicted_power_Num [OF assms(1) assms(4), of store_ok binary64 tn h now]
    by (simp only: m(1))
  have ex: "b = 10 \<and> c = 0 \<and> h = 11 \<longrightarrow>
      predicted_power (predictionCache ?run) = Some 10
      \<and> confidence (predictionCache ?run) = Some 90"
  proof (intro impI conjI)
    assume e: "b = 10 \<and> c = 0 \<and> h = 11"
    have cf: "cloud_factor binary64 0 = 1"
      by (simp add: cloud_factor_def binary64_0 binary64_1)
    have "plain_product binary64 10 (hourlyFactor ! 12) 0 = 10"
      by (simp add: plain_product_def cf hourlyFactor_def binary64_1 binary64_10)
    moreover have "round3 10 = 10"
      by (simp add: round3_def)
    ultimately show "predicted_power (predictionCache ?run) = Some 10"
      using e predicted_power_Num [OF assms(1) assms(4), of store_ok binary64 tn h now]
      by (simp add: binary64_0 binary64_10)
    have "confidence_rounded binary64 0 = 90"
      by (simp add: confidence_rounded_def cf binary64_90)
    then show "confidence (predictionCache ?run) = Some 90"
      using e confidence_Num [OF assms(4), of store_ok binary64 tn h now]
      by (simp add: binary64_0)
  qed
  from entry pp n m ex show ?thesis
    by (intro exI [of _ n] exI [of _ m]) simp
qed

theorem forecast_formula_witness:
  "lookup (latestReading clear_sky_state) (str ''power'') = Num 10
   \<and> lookup (weatherCache clear_sky_state) (str ''clouds'') = Num 0
   \<and> predicted_power (predictionCache
         (runPrediction firebase_accepts binary64 (\<lambda>v. None) 11 1708612400000 clear_sky_state))
       = Some 10
   \<and> confidence (predictionCache
         (runPrediction firebase_accepts binary64 (\<lambda>v. None) 11 1708612400000 clear_sky_state))
       = Some 90
   \<and> hour (forecast (predictionCache
         (runPrediction firebase_accepts binary64 (\<lambda>v. None) 11 1708612400000 clear_sky_state))
         ! 0) = 12
   \<and> predicted (forecast (predictionCache
         (runPrediction firebase_accepts binary64 (\<lambda>v. None) 11 1708612400000 clear_sky_state))
         ! 0) = Some 11"
proof -
  let ?run = "runPrediction firebase_accepts binary64 (\<lambda>v. None) 11 1708612400000 clear_sky_state"
  have a: "lookup (latestReading clear_sky_state) (str ''power'') = Num 10"
    by (simp add: clear_sky_state_def str_def)
  have b: "lookup (weatherCache clear_sky_state) (str ''clouds'') = Num 0"
    by (simp add: clear_sky_state_def)
  have c: "(0 :: real) \<le> 10" "(10 :: real) \<le> 10 ^ 300" "(0 :: real) \<le> 0" "(0 :: real) \<le> 100"
    "(11 :: nat) < 24" "(1 :: nat) \<le> 1" "(1 :: nat) \<le> 6"
    by simp_all
  note t = forecast_formula [where store_ok = firebase_accepts and tn = "\<lambda>v. None"
      and now = 1708612400000, OF a c(1) c(2) b c(3) c(4) c(5) c(6) c(7)]
  from t have pc: "predicted_power (predictionCache ?run) = Some 10
      \<and> confidence (predictionCache ?run) = Some 90"
    by blast
  have cf: "cloud_factor binary64 0 = 1"
    by (simp add: cloud_factor_def binary64_0 binary64_1)
  have "boosted_product binary64 10 (hourlyFactor ! 12) 0 = 11"
    by (simp add: boosted_product_def cf hourlyFactor_def binary64_1 binary64_10
          binary64_eleven_tenths) (simp add: binary64_eval)
  moreover have "round3 11 = 11"
    by (simp add: round3_def)
  moreover have "binary64 11 = 11"
    using binary64_nat_exact [of 11] by simp
  ultimately have e: "forecast_entry_at binary64 (\<lambda>v. None) 11 clear_sky_state 1
      = \<lparr> hour = 12, label = show_nat 12 @ str '':00'', predicted = Some 11 \<rparr>"
    using forecast_entry_Num [OF a b, of binary64 "\<lambda>v. None" 11 1]
    by (simp add: binary64_0 binary64_10)
  have "forecast (predictionCache ?run) ! (1 - 1)
      = forecast_entry_at binary64 (\<lambda>v. None) 11 clear_sky_state 1"
    by (rule forecast_nth) simp_all
  with e have f: "hour (forecast (predictionCache ?run) ! 0) = 12
      \<and> predicted (forecast (predictionCache ?run) ! 0) = Some 11"
    by simp
  from a b pc f show ?thesis
    by blast
qed

text \<open>
  The rounding of the arithmetic shows in the result. With a power of 10, a cloud
  cover of 1 percent and the hour 9, the exact product \<open>10 * 0.75 * 0.993\<close> is \<open>7.4475\<close>,
  which rounds to \<open>7.448\<close>; the binary64 product is just below it, and the predicted
  power is \<open>7.447\<close>.
\<close>

lemma tie_example:
  "predicted_power (predictionCache
      (runPrediction firebase_accepts binary64 (\<lambda>v. None) 9 1708612400000 light_cloud_state))
     = Some (binary64 (7447 / 1000))
   \<and> predicted_power (predictionCache
      (runPrediction firebase_accepts (\<lambda>x. x) (\<lambda>v. None) 9 1708612400000 light_cloud_state))
     = Some (7448 / 1000)"
proof -
  have a: "lookup (latestReading light_cloud_state) (str ''power'') = Num 10"
    by (simp add: light_cloud_state_def str_def)
  have b: "lookup (weatherCache light_cloud_state) (str ''clouds'') = Num 1"
    by (simp add: light_cloud_state_def)
  have cf: "cloud_factor binary64 1 = 8944148859957805 / 9007199254740992"
    by (simp add: cloud_factor_def binary64_seven_tenths) (simp add: binary64_eval)
  have pp: "plain_product binary64 10 (hourlyFactor ! 10) 1
      = 8385139556210442 / 1125899906842624"
    by (simp add: plain_product_def cf hourlyFactor_def) (simp add: binary64_eval)
  have r: "round3 (plain_product binary64 10 (hourlyFactor ! 10) 1) = 7447 / 1000"
    unfolding pp by (simp add: round3_def)
  have "predicted_power (predictionCache
      (runPrediction firebase_accepts binary64 (\<lambda>v. None) 9 1708612400000 light_cloud_state))
     = Some (max 0 (binary64 (round3 (plain_product binary64 10 (hourlyFactor ! 10) 1))))"
    using predicted_power_Num [OF a b, of firebase_accepts binary64 "\<lambda>v. None" 9 1708612400000]
    by (simp add: binary64_1 binary64_10)
  then have r1: "predicted_power (predictionCache
      (runPrediction firebase_accepts binary64 (\<lambda>v. None) 9 1708612400000 light_cloud_state))
     = Some (binary64 (7447 / 1000))"
    unfolding r using binary64_nonneg [of "7447 / 1000"] by simp
  have r': "round3 (plain_product (\<lambda>x. x) 10 (hourlyFactor ! 10) 1) = 7448 / 1000"
    by (simp add: plain_product_def cloud_factor_def hourlyFactor_def round3_def)
  have "predicted_power (predictionCache
      (runPrediction firebase_accepts (\<lambda>x. x) (\<lambda>v. None) 9 1708612400000 light_cloud_state))
     = Some (max 0 (round3 (plain_product (\<lambda>x. x) 10 (hourlyFactor ! 10) 1)))"
    using predicted_power_Num [OF a b, of firebase_accepts "\<lambda>x. x" "\<lambda>v. None" 9 1708612400000]
    by simp
  then have r2: "predicted_power (predictionCache
      (runPrediction firebase_accepts (\<lambda>x. x) (\<lambda>v. None) 9 1708612400000 light_cloud_state))
     = Some (7448 / 1000)"
    unfolding r' by simp
  from r1 r2 show ?thesis
    by simp
qed

text \<open>
  C10. For a cloud cover \<open>c\<close> in \<open>[0, 100]\<close>, whatever the latest reading, the hour and
  the answer of the store, the confidence is \<open>round((1 - (c / 100) * 0.7) * 90)\<close> and lies
  between 27 and 90: in exact arithmetic, where it is that integer, and in binary64
  arithmetic, where every operation of the expression rounds its result.
\<close>

theorem confidence_bounds:
  assumes "lookup (weatherCache st) (str ''clouds'') = Num c" and "0 \<le> c" and "c \<le> 100"
  shows "(\<exists>k :: int.
      confidence (predictionCache (runPrediction store_ok (\<lambda>x. x) tn h now st)) = Some (of_int k)
      \<and> k = \<lfloor>(1 - (c / 100) * 0.7) * 90 + 1 / 2\<rfloor>
      \<and> 27 \<le> k \<and> k \<le> 90)
    \<and> (\<exists>k :: int.
      confidence (predictionCache (runPrediction store_ok binary64 tn h now st)) = Some (of_int k)
      \<and> k = confidence_rounded binary64 (binary64 c)
      \<and> 27 \<le> k \<and> k \<le> 90)"
proof -
  let ?x = "(1 - (c / 100) * 0.7) * 90"
  have conf: "confidence (predictionCache (runPrediction store_ok (\<lambda>x. x) tn h now st))
      = Some (of_int \<lfloor>?x + 1 / 2\<rfloor>)"
    using confidence_Num [OF assms(1), of store_ok "\<lambda>x. x" tn h now]
    by (simp add: confidence_rounded_def cloud_factor_def)
  have lo: "27 \<le> ?x" using assms(3) by simp
  have hi: "?x \<le> 90" using assms(2) by simp
  from lo have "27 \<le> \<lfloor>?x + 1 / 2\<rfloor>"
    by (simp add: le_floor_iff)
  moreover from hi have "\<lfloor>?x + 1 / 2\<rfloor> \<le> 90"
    by (simp add: floor_le_iff)
  ultimately have exact: "\<exists>k :: int.
      confidence (predictionCache (runPrediction store_ok (\<lambda>x. x) tn h now st)) = Some (of_int k)
      \<and> k = \<lfloor>?x + 1 / 2\<rfloor> \<and> 27 \<le> k \<and> k \<le> 90"
    using conf by blast
  have rounded: "\<exists>k :: int.
      confidence (predictionCache (runPrediction store_ok binary64 tn h now st)) = Some (of_int k)
      \<and> k = confidence_rounded binary64 (binary64 c) \<and> 27 \<le> k \<and> k \<le> 90"
    using confidence_Num [OF assms(1), of store_ok binary64 tn h now]
      confidence_binary64_bounds [OF assms(2) assms(3)]
    by blast
  from exact rounded show ?thesis
    by blast
qed

theorem confidence_bounds_witness:
  "lookup (weatherCache overcast_state) (str ''clouds'') = Num 100
   \<and> confidence (predictionCache
         (runPrediction firebase_accepts (\<lambda>x. x) (\<lambda>v. None) 11 1708612400000 overcast_state))
       = Some 27
   \<and> confidence (predictionCache
         (runPrediction firebase_accepts binary64 (\<lambda>v. None) 11 1708612400000 overcast_state))
       = Some 27"
proof -
  have a: "lookup (weatherCache overcast_state) (str ''clouds'') = Num 100"
    by (simp add: overcast_state_def)
  have b: "(0 :: real) \<le> 100" "(100 :: real) \<le> 100"
    by simp_all
  note t = confidence_bounds [where store_ok = firebase_accepts and tn = "\<lambda>v. None"
      and h = 11 and now = 1708612400000, OF a b]
  from t obtain k :: int where
    c: "confidence (predictionCache
          (runPrediction firebase_accepts (\<lambda>x. x) (\<lambda>v. None) 11 1708612400000 overcast_state))
        = Some (of_int k)"
    and k: "k = \<lfloor>(1 - (100 / 100) * 0.7) * 90 + 1 / 2 :: real\<rfloor>"
    by blast
  have "\<lfloor>(1 - (100 / 100) * 0.7) * 90 + 1 / 2 :: real\<rfloor> = 27"
    by simp
  with k c have r1: "confidence (predictionCache
      (runPrediction firebase_accepts (\<lambda>x. x) (\<lambda>v. None) 11 1708612400000 overcast_state))
      = Some 27"
    by simp
  from t obtain j :: int where
    d: "confidence (predictionCache
          (runPrediction firebase_accepts binary64 (\<lambda>v. None) 11 1708612400000 overcast_state))
        = Some (of_int j)"
    and j: "j = confidence_rounded binary64 (binary64 100)"
    by blast
  have "confidence_rounded binary64 (binary64 100) = 27"
    by (simp add: confidence_rounded_def cloud_factor_def binary64_100 binary64_1
          binary64_seven_tenths) (simp add: binary64_eval)
  with j d have r2: "confidence (predictionCache
      (runPrediction firebase_accepts binary64 (\<lambda>v. None) 11 1708612400000 overcast_state))
      = Some 27"
    by simp
  from a r1 r2 show ?thesis
    by blast
qed

text \<open>
  The bounds hold for every rounding that is monotone, exact on 0, 1 and 90, and
  within a millionth of its argument between 1/4 and 128.
\<close>

lemma confidence_rounded_exact:
  "confidence_rounded (\<lambda>x. x) c = \<lfloor>(1 - (c / 100) * 0.7) * 90 + 1 / 2\<rfloor>"
  by (simp add: confidence_rounded_def cloud_factor_def)

lemma confidence_rounded_bounds:
  assumes mono: "\<And>x y. x \<le> y \<Longrightarrow> rnd x \<le> rnd y"
    and r0: "rnd 0 = 0" and r1: "rnd 1 = 1" and r90: "rnd 90 = 90"
    and err: "\<And>x. 1 / 4 \<le> x \<Longrightarrow> x \<le> 128 \<Longrightarrow>
      x - x / 1000000 \<le> rnd x \<and> rnd x \<le> x + x / 1000000"
    and c: "0 \<le> c" "c \<le> 100"
  shows "27 \<le> confidence_rounded rnd c \<and> confidence_rounded rnd c \<le> 90"
proof -
  let ?a = "rnd (c / 100)"
  let ?k = "rnd 0.7"
  let ?p = "rnd (?a * ?k)"
  let ?d = "rnd (1 - ?p)"
  let ?e = "rnd (?d * 90)"
  have a: "0 \<le> ?a" "?a \<le> 1"
    using mono [of 0 "c / 100"] mono [of "c / 100" 1] c r0 r1 by simp_all
  have k: "0 \<le> ?k" "?k \<le> 0.7000007"
    using err [of "0.7"] by simp_all
  have ak: "0 \<le> ?a * ?k" "?a * ?k \<le> 0.7000007"
  proof -
    show "0 \<le> ?a * ?k" using a k by simp
    have "?a * ?k \<le> 1 * ?k"
      using a k by (intro mult_right_mono) simp_all
    with k show "?a * ?k \<le> 0.7000007" by simp
  qed
  have p: "0 \<le> ?p" "?p \<le> 0.7000015"
  proof -
    show "0 \<le> ?p" using mono [OF ak(1)] r0 by simp
    have "?p \<le> rnd 0.7000007" using mono [OF ak(2)] .
    also have "\<dots> \<le> 0.7000015" using err [of "0.7000007"] by simp
    finally show "?p \<le> 0.7000015" .
  qed
  have d: "0.299998 \<le> ?d" "?d \<le> 1"
  proof -
    have "1 - ?p \<le> 1" using p by simp
    from mono [OF this] r1 show "?d \<le> 1" by simp
    have "0.2999985 \<le> 1 - ?p" using p by simp
    from mono [OF this] have "rnd 0.2999985 \<le> ?d" .
    moreover have "0.299998 \<le> rnd 0.2999985" using err [of "0.2999985"] by simp
    ultimately show "0.299998 \<le> ?d" by simp
  qed
  have e: "26.9997 \<le> ?e" "?e \<le> 90"
  proof -
    have "?d * 90 \<le> 90" using d by simp
    from mono [OF this] r90 show "?e \<le> 90" by simp
    have "26.99982 \<le> ?d * 90" using d by simp
    from mono [OF this] have "rnd 26.99982 \<le> ?e" .
    moreover have "26.9997 \<le> rnd 26.99982" using err [of "26.99982"] by simp
    ultimately show "26.9997 \<le> ?e" by simp
  qed
  from e(1) have "27 \<le> \<lfloor>?e + 1 / 2\<rfloor>"
    by (simp add: le_floor_iff)
  moreover from e(2) have "\<lfloor>?e + 1 / 2\<rfloor> \<le> 90"
    by (simp add: floor_le_iff)
  ultimately show ?thesis
    by (simp add: confidence_rounded_def cloud_factor_def)
qed

lemma confidence_rounded_bounds_exact:
  "0 \<le> c \<Longrightarrow> c \<le> 100 \<Longrightarrow>
   27 \<le> confidence_rounded (\<lambda>x. x) c \<and> confidence_rounded (\<lambda>x. x) c \<le> 90"
  by (rule confidence_rounded_bounds) simp_all

section \<open>The history query\<close>

lemma digit_char:
  assumes "k < 10"
  shows "is_digit (of_nat k + 0x30) \<and> unat ((of_nat k + 0x30 :: 16 word) - 0x30) = k"
proof -
  from assms have "k = 0 \<or> k = 1 \<or> k = 2 \<or> k = 3 \<or> k = 4 \<or> k = 5 \<or> k = 6 \<or> k = 7
      \<or> k = 8 \<or> k = 9"
    by arith
  then show ?thesis
    by (auto simp: is_digit_def)
qed

lemma show_nat_digits: "list_all is_digit (show_nat n)"
proof (induction n rule: show_nat.induct)
  case (1 n)
  show ?case
  proof (cases "n < 10")
    case True
    then show ?thesis
      using digit_char [of n] by (subst show_nat.simps) simp
  next
    case False
    then show ?thesis
      using 1 digit_char [of "n mod 10"] by (subst show_nat.simps) simp
  qed
qed

lemma show_nat_nonempty: "show_nat n \<noteq> []"
  by (subst show_nat.simps) simp

lemma digits_val_snoc: "digits_val (xs @ [d]) = 10 * digits_val xs + unat (d - 0x30)"
  by (simp add: digits_val_def)

lemma digits_val_show_nat: "digits_val (show_nat n) = n"
proof (induction n rule: show_nat.induct)
  case (1 n)
  show ?case
  proof (cases "n < 10")
    case True
    then show ?thesis
      using digit_char [of n] by (subst show_nat.simps) (simp add: digits_val_def)
  next
    case False
    then show ?thesis
      using 1 digit_char [of "n mod 10"]
      by (subst show_nat.simps) (simp add: digits_val_snoc)
  qed
qed

lemma digit_not_space: "is_digit c \<Longrightarrow> \<not> js_whitespace c"
  by (auto simp: is_digit_def js_whitespace_def word_le_nat_alt)

lemma parseInt_digits:
  assumes "s \<noteq> []" and "list_all is_digit s"
  shows "parseInt rnd s = to_number rnd (real (digits_val s))"
proof -
  from assms obtain d ds where s: "s = d # ds" and d: "is_digit d" and ds: "list_all is_digit ds"
    by (cases s) auto
  have t: "trimStart s = s"
    using s digit_not_space [OF d] by (simp add: trimStart_def)
  have sign: "d \<noteq> 0x2D" "d \<noteq> 0x2B"
    using d by (auto simp: is_digit_def)
  have nohex: "\<not> startsWith s (str ''0x'')" "\<not> startsWith s (str ''0X'')"
    using s ds by (cases ds; auto simp: startsWith_def str_def is_digit_def)+
  have all: "takeWhile is_digit s = s"
    using assms(2) by (simp add: takeWhile_eq_all_conv list_all_iff)
  show ?thesis
    using assms(1) by (simp add: parseInt_def t s [symmetric] Let_def nohex all)
       (simp add: s sign)
qed

lemma parseInt_show_nat: "parseInt rnd (show_nat n) = to_number rnd (real n)"
  using parseInt_digits [OF show_nat_nonempty show_nat_digits]
  by (simp add: digits_val_show_nat)

lemma parseInt_undefined: "parseInt rnd (str ''undefined'') = NaN"
  by (simp add: parseInt_def trimStart_def js_whitespace_def str_def startsWith_def is_digit_def)










text \<open>
  Every entry the server pushes has a numeric \<open>timestamp\<close>, so the history of a run
  from the initial state holds only such entries.
\<close>

lemma onData_history_numeric:
  assumes "\<forall>e \<in> set (db_history st). numeric_timestamp e"
  shows "\<forall>e \<in> set (db_history (onData store_ok now line st)). numeric_timestamp e"
  using assms
  by (auto simp: onData_def Let_def numeric_timestamp_def lookup_put_same
        split: option.splits jsval.splits)

lemma apply_event_history_numeric:
  assumes "\<forall>e \<in> set (db_history st). numeric_timestamp e"
  shows "\<forall>e \<in> set (db_history (apply_event store_ok rnd tn st ev)). numeric_timestamp e"
proof (cases ev)
  case (SerialLine now line)
  then show ?thesis
    using onData_history_numeric [OF assms] by simp
next
  case (WeatherFetch now res)
  then show ?thesis
    using assms by (simp add: fetchWeather_def split: http_result.splits sum.splits)
next
  case (Prediction h now)
  then show ?thesis
    using assms by (simp add: runPrediction_def Let_def)
qed

lemma run_history_numeric:
  "\<forall>e \<in> set (db_history st). numeric_timestamp e \<Longrightarrow>
   \<forall>e \<in> set (db_history (foldl (apply_event store_ok rnd tn) st evs)). numeric_timestamp e"
proof (induction evs arbitrary: st)
  case Nil
  then show ?case by simp
next
  case (Cons ev evs)
  from Cons.IH [OF apply_event_history_numeric [OF Cons.prems]]
  show ?case by simp
qed

lemma initial_run_history_numeric:
  "list_all numeric_timestamp (db_history (foldl (apply_event store_ok rnd tn) (initial_state t0) evs))"
  using run_history_numeric [of "initial_state t0" store_ok rnd tn evs]
  by (simp add: initial_state_def list_all_iff)


lemmas parseInt_eval =
  parseInt_def to_number_def finite64_def trimStart_def js_whitespace_def str_def
  startsWith_def is_digit_def digits_val_def

lemma binary64_2: "binary64 2 = 2"
  using binary64_nat_exact [of 2] by simp


text \<open>On that history the two most recent entries come back, oldest first.\<close>

lemma history_example:
  "api_history binary64 (\<lambda>v. None) unbounded (Some (str ''2'')) three_entries_state
     = ApiOk [[(str ''power'', Num 6), (str ''timestamp'', Num 200)],
              [(str ''power'', Num 7), (str ''timestamp'', Num 300)]]"
  by (simp add: api_history_def history_limit_def parseInt_eval binary64_2 Let_def
        limitToLast_def js_sort_def fb_cmp_def key_cmp_def timestamp_cmp_def js_sub_def
        three_entries_state_def
        upt_rec [of 0] upt_rec [of 1] upt_rec [of 2] upt_rec [of 3])

text \<open>A positive integer rounds to a number that is at least 1.\<close>

lemma binary64_nat_pos:
  assumes "0 < n"
  shows "1 \<le> binary64 (real n)"
proof -
  have "binary64 1 \<le> binary64 (real n)"
    using assms by (intro binary64_mono) simp_all
  then show ?thesis
    by (simp add: binary64_1)
qed

lemma finite64_nat:
  assumes "n < 2 ^ 53"
  shows "finite64 (real n)"
proof -
  have "real n < real (2 ^ 53)"
    using assms of_nat_less_iff by blast
  then have "real n < 2 ^ 53"
    by simp
  also have "(2 :: real) ^ 53 < 2 ^ 1024 - 2 ^ 970"
    by simp
  finally show ?thesis
    by (simp add: finite64_def)
qed

text \<open>
  C4, as the code has it. The limit is \<^verbatim>\<open>parseInt(req.query.limit) || 50\<close>: 50 when the
  parameter is absent, is not a number or is zero, and otherwise the number read, with
  no upper cap and no clamping. A positive integer \<open>n\<close>, written in decimal, is applied
  as the binary64 nearest to \<open>n\<close>, which is \<open>n\<close> itself below \<open>2^53\<close>, and as \<open>Infinity\<close>
  beyond the binary64 range. A negative limit is refused by the store's \<open>limitToLast\<close>
  and the request answers 500.
\<close>

theorem history_limit_applied:
  "history_limit rnd None = Finite 50
   \<and> (parseInt rnd s = NaN \<or> parseInt rnd s = Finite 0 \<longrightarrow>
        history_limit rnd (Some s) = Finite 50)
   \<and> (parseInt rnd s = Finite x \<and> x \<noteq> 0 \<longrightarrow> history_limit rnd (Some s) = Finite x)
   \<and> (0 < n \<and> finite64 (real n) \<longrightarrow>
        history_limit binary64 (Some (show_nat n)) = Finite (binary64 (real n)))
   \<and> (0 < n \<and> n < 2 ^ 53 \<longrightarrow> history_limit binary64 (Some (show_nat n)) = Finite (real n))
   \<and> (\<not> finite64 (real n) \<longrightarrow> history_limit rnd (Some (show_nat n)) = PosInfinity)
   \<and> (history_limit rnd q = Finite y \<and> y < 0 \<longrightarrow>
        api_history rnd tn unbounded q st = ApiError500)"
proof -
  have a: "history_limit rnd None = Finite 50"
    by (simp add: history_limit_def parseInt_undefined)
  have b: "parseInt rnd s = NaN \<or> parseInt rnd s = Finite 0 \<longrightarrow>
      history_limit rnd (Some s) = Finite 50"
    by (auto simp: history_limit_def)
  have c: "parseInt rnd s = Finite x \<and> x \<noteq> 0 \<longrightarrow> history_limit rnd (Some s) = Finite x"
    by (auto simp: history_limit_def)
  have d: "history_limit binary64 (Some (show_nat n)) = Finite (binary64 (real n))"
    if "0 < n" "finite64 (real n)"
    using binary64_nat_pos [OF that(1)] that(2)
    by (simp add: history_limit_def parseInt_show_nat to_number_def)
  have e: "history_limit binary64 (Some (show_nat n)) = Finite (real n)" if "0 < n" "n < 2 ^ 53"
    using d [OF that(1) finite64_nat [OF that(2)]] binary64_nat_exact [OF that(2)] by simp
  have f: "history_limit rnd (Some (show_nat n)) = PosInfinity" if "\<not> finite64 (real n)"
  proof -
    have "0 < real n"
      using that by (cases "n = 0") (simp_all add: finite64_def)
    then show ?thesis
      using that by (simp add: history_limit_def parseInt_show_nat to_number_def)
  qed
  have g: "history_limit rnd q = Finite y \<and> y < 0 \<longrightarrow>
      api_history rnd tn unbounded q st = ApiError500"
    by (simp add: api_history_def)
  from a b c d e f g show ?thesis
    by blast
qed

theorem history_limit_applied_witness:
  "parseInt binary64 (str ''12abc'') = Finite 12 \<and> (12 :: real) \<noteq> 0
   \<and> history_limit binary64 (Some (str ''12abc'')) = Finite 12
   \<and> (0 :: nat) < 1000000 \<and> (1000000 :: nat) < 2 ^ 53
   \<and> history_limit binary64 (Some (show_nat 1000000)) = Finite 1000000
   \<and> history_limit binary64 (Some (str ''-5'')) = Finite (- 5) \<and> (- 5 :: real) < 0
   \<and> api_history binary64 (\<lambda>v. None) (ApiOk []) (Some (str ''-5'')) three_entries_state
       = ApiError500
   \<and> parseInt binary64 (str ''all'') = NaN
   \<and> history_limit binary64 (Some (str ''all'')) = Finite 50
   \<and> \<not> finite64 (real (10 ^ 400))
   \<and> history_limit binary64 (Some (show_nat (10 ^ 400))) = PosInfinity"
proof -
  have b12: "binary64 12 = 12"
    using binary64_nat_exact [of 12] by simp
  have a: "parseInt binary64 (str ''12abc'') = Finite 12"
    by (simp add: parseInt_eval b12)
  have "binary64 (- 5) = - 5"
    by (simp add: binary64_eval)
  then have b: "history_limit binary64 (Some (str ''-5'')) = Finite (- 5)"
    by (simp add: history_limit_def parseInt_eval)
  have a': "parseInt binary64 (str ''all'') = NaN"
    by (simp add: parseInt_eval)
  have n: "(0 :: nat) < 1000000" "(1000000 :: nat) < 2 ^ 53" "(12 :: real) \<noteq> 0"
    "(- 5 :: real) < 0"
    by simp_all
  have i: "\<not> finite64 (real (10 ^ 400))"
    by (simp add: finite64_def)
  note t = history_limit_applied
    [of binary64 "str ''12abc''" 12 1000000 "Some (str ''-5'')" "- 5" "\<lambda>v. None" "ApiOk []"
      three_entries_state]
  note t' = history_limit_applied
    [of binary64 "str ''all''" 0 "10 ^ 400" "Some (str ''2'')" 0 "\<lambda>v. None" "ApiOk []"
      three_entries_state]
  from t a have c: "history_limit binary64 (Some (str ''12abc'')) = Finite 12"
    by simp
  from t n have d: "history_limit binary64 (Some (show_nat 1000000)) = Finite (real 1000000)"
    by blast
  then have d': "history_limit binary64 (Some (show_nat 1000000)) = Finite 1000000"
    by simp
  from t b n have e:
    "api_history binary64 (\<lambda>v. None) (ApiOk []) (Some (str ''-5'')) three_entries_state
       = ApiError500"
    by blast
  from t' a' have c': "history_limit binary64 (Some (str ''all'')) = Finite 50"
    by blast
  from t' i have f: "history_limit binary64 (Some (show_nat (10 ^ 400))) = PosInfinity"
    by blast
  from a n c d' b e a' c' i f show ?thesis
    by blast
qed

theorem history_limit_counterexample:
  "history_limit binary64 (Some (str ''1000000000000'')) = Finite 1000000000000"
proof -
  have "binary64 (real 1000000000000) = real 1000000000000"
    by (rule binary64_nat_exact) simp
  then show ?thesis
    by (simp add: history_limit_def parseInt_eval)
qed

text \<open>
  From \<open>2^53\<close> on the number read is not always the integer written:
  \<open>9007199254740993\<close> is applied as \<open>9007199254740992\<close>.
\<close>

lemma history_limit_rounded:
  "history_limit binary64 (Some (str ''9007199254740993'')) = Finite 9007199254740992"
proof -
  have "binary64 9007199254740993 = 9007199254740992"
    by (simp add: binary64_eval)
  then show ?thesis
    by (simp add: history_limit_def parseInt_eval)
qed

section \<open>The end-to-end scenario\<close>

text \<open>
  A telemetry line, a line of garbage, a status message and a second telemetry line,
  with the store taking what it documents: the latest reading is the second one, and
  the history holds the two readings in the order of arrival.
\<close>

lemma onData_example_line:
  assumes "now < 2 ^ 53"
  shows "onData firebase_accepts now example_line st =
    st\<lparr>latestReading := example_data @ [(str ''timestamp'', Num (real now))],
       db_live := Some (example_data @ [(str ''timestamp'', Num (real now))]),
       db_history := db_history st @ [example_data @ [(str ''timestamp'', Num (real now))]],
       console := console st @ [LogReading (example_data @ [(str ''timestamp'', Num (real now))])]\<rparr>"
proof -
  have p: "put example_data (str ''timestamp'') v = example_data @ [(str ''timestamp'', v)]" for v
    by (simp add: example_data_def str_def)
  have a: "startsWith (trim example_line) (str ''{'')"
    by (simp add: trim_example_line example_line_brace)
  have b: "JSON_parse (trim example_line) = Some (Obj example_data)"
    by (simp add: trim_example_line parse_example_line)
  have c: "\<not> truthy (lookup example_data (str ''error''))"
    "\<not> truthy (lookup example_data (str ''status''))"
    using telemetry_not_message [OF telemetry_example_data] by simp_all
  have v: "valid_members example_data"
    by (simp add: example_data_def str_def store_eval)
  show ?thesis
    using onData_reading [where store_ok = firebase_accepts and st = st, OF a b c
        firebase_accepts_reading [OF v assms] firebase_accepts_reading [OF v assms]]
    by (simp add: p)
qed

lemma onData_second_line:
  assumes "now < 2 ^ 53"
  shows "onData firebase_accepts now second_line st =
    st\<lparr>latestReading := second_data @ [(str ''timestamp'', Num (real now))],
       db_live := Some (second_data @ [(str ''timestamp'', Num (real now))]),
       db_history := db_history st @ [second_data @ [(str ''timestamp'', Num (real now))]],
       console := console st @ [LogReading (second_data @ [(str ''timestamp'', Num (real now))])]\<rparr>"
proof -
  have p: "put second_data (str ''timestamp'') v = second_data @ [(str ''timestamp'', v)]" for v
    by (simp add: second_data_def str_def)
  have t: "trim second_line = second_line"
    by (simp add: second_line_def trim_def trimStart_def str_def js_whitespace_def)
  have a: "startsWith (trim second_line) (str ''{'')"
    unfolding t by (simp add: second_line_def startsWith_def str_def)
  have b: "JSON_parse (trim second_line) = Some (Obj second_data)"
    unfolding t second_line_def second_data_def by (simp add: line_eval)
  have c: "\<not> truthy (lookup second_data (str ''error''))"
    "\<not> truthy (lookup second_data (str ''status''))"
    by (simp_all add: second_data_def str_def)
  have v: "valid_members second_data"
    by (simp add: second_data_def str_def store_eval)
  show ?thesis
    using onData_reading [where store_ok = firebase_accepts and st = st, OF a b c
        firebase_accepts_reading [OF v assms] firebase_accepts_reading [OF v assms]]
    by (simp add: p)
qed

lemma onData_garbage: "onData store_ok now (str ''garbage'') st = st"
  by (rule onData_not_json) (simp add: line_eval)

lemma onData_ready:
  \<open>onData store_ok now (str ''{"status":"ready"}'') st
     = st\<lparr>console := console st @ [LogArduino (Str (str ''ready''))]\<rparr>\<close>
proof -
  have a: \<open>startsWith (trim (str ''{"status":"ready"}'')) (str ''{'')\<close>
    by (simp add: line_eval)
  have b: \<open>JSON_parse (trim (str ''{"status":"ready"}''))
      = Some (Obj [(str ''status'', Str (str ''ready''))])\<close>
    by (simp add: line_eval)
  show ?thesis
    using onData_message [OF a b, of store_ok now st] by (simp add: js_or_def str_def)
qed

lemma end_to_end_scenario:
  \<open>latestReading
     (onData firebase_accepts 1708612348000 second_line
       (onData firebase_accepts 1708612347000 (str ''{"status":"ready"}'')
         (onData firebase_accepts 1708612346000 (str ''garbage'')
           (onData firebase_accepts 1708612345000 example_line (initial_state 1708612340000)))))
     = second_data @ [(str ''timestamp'', Num 1708612348000)]
   \<and> api_history binary64 tn unbounded (Some (str ''10''))
       (onData firebase_accepts 1708612348000 second_line
         (onData firebase_accepts 1708612347000 (str ''{"status":"ready"}'')
           (onData firebase_accepts 1708612346000 (str ''garbage'')
             (onData firebase_accepts 1708612345000 example_line (initial_state 1708612340000)))))
     = ApiOk [example_data @ [(str ''timestamp'', Num 1708612345000)],
              second_data @ [(str ''timestamp'', Num 1708612348000)]]\<close>
proof -
  have l: "history_limit binary64 (Some (str ''10'')) = Finite 10"
    by (simp add: history_limit_def parseInt_eval binary64_10)
  have t1: "lookup (example_data @ [(str ''timestamp'', Num 1708612345000)]) (str ''timestamp'')
      = Num 1708612345000"
    by (simp add: example_data_def str_def)
  have t2: "lookup (second_data @ [(str ''timestamp'', Num 1708612348000)]) (str ''timestamp'')
      = Num 1708612348000"
    by (simp add: second_data_def str_def)
  have n: "(1708612345000 :: nat) < 2 ^ 53" "(1708612348000 :: nat) < 2 ^ 53"
    by simp_all
  have s1: "onData firebase_accepts 1708612345000 example_line (initial_state 1708612340000)
      = (initial_state 1708612340000)
          \<lparr>latestReading := example_data @ [(str ''timestamp'', Num 1708612345000)],
           db_live := Some (example_data @ [(str ''timestamp'', Num 1708612345000)]),
           db_history := [example_data @ [(str ''timestamp'', Num 1708612345000)]],
           console := [LogReading (example_data @ [(str ''timestamp'', Num 1708612345000)])]\<rparr>"
    using onData_example_line [OF n(1), of "initial_state 1708612340000"]
    by (simp add: initial_state_def)
  show ?thesis
    unfolding s1 onData_garbage onData_ready onData_second_line [OF n(2)]
    by (simp add: api_history_def l Let_def limitToLast_def js_sort_def fb_cmp_def
          key_cmp_def timestamp_cmp_def js_sub_def t1 t2 upt_rec [of 0] upt_rec [of 1]
          upt_rec [of 2])
qed

end
